theory Spec2Isabelle
  imports Main "HOL-Library.Word"
begin

unbundle bit_operations_syntax

section \<open>Type definitions (cross.c, lines 47-94)\<close>

type_synonym byte = "8 word"
type_synonym addr = "64 word"

datatype FFI_Type =
    FFI_TYPE_UNKNOWN
  | FFI_TYPE_VOID
  | FFI_TYPE_BOOL
  | FFI_TYPE_CHAR
  | FFI_TYPE_UCHAR
  | FFI_TYPE_SHORT
  | FFI_TYPE_USHORT
  | FFI_TYPE_INT
  | FFI_TYPE_UINT
  | FFI_TYPE_LONG
  | FFI_TYPE_ULONG
  | FFI_TYPE_LLONG
  | FFI_TYPE_ULLONG
  | FFI_TYPE_FLOAT
  | FFI_TYPE_DOUBLE
  | FFI_TYPE_POINTER
  | FFI_TYPE_WCHAR
  | FFI_TYPE_SIZE_T
  | FFI_TYPE_SCHAR
  | FFI_TYPE_SSHORT
  | FFI_TYPE_SINT
  | FFI_TYPE_SLONG
  | FFI_TYPE_SLLONG
  | FFI_TYPE_INT128
  | FFI_TYPE_UINT128

text \<open>
  \<^verbatim>\<open>struct FFI_FunctionSignature\<close>. The C fields \<^verbatim>\<open>num_params\<close> and \<^verbatim>\<open>param_types\<close>
  (a count and a pointer to that many entries, \<^verbatim>\<open>NULL\<close> when there are none) are one
  list; \<^verbatim>\<open>num_params\<close> is its length. Code and function pointers are 64-bit addresses,
  \<open>0\<close> is \<^verbatim>\<open>NULL\<close>.
\<close>

record FFI_FunctionSignature =
  debug_name :: string
  return_type :: FFI_Type
  param_types :: "FFI_Type list"
  func_ptr :: addr
  trampoline_size :: nat
  trampoline_code :: addr

definition num_params :: "FFI_FunctionSignature \<Rightarrow> int" where
  "num_params sig = int (length (param_types sig))"

section \<open>x86-64 instruction component defines (cross.c, lines 145-257)\<close>

abbreviation (input) OPCODE_END_BRANCH_64 :: byte where "OPCODE_END_BRANCH_64 \<equiv> 0xFA"
abbreviation (input) OPCODE_PUSH_RBP :: byte where "OPCODE_PUSH_RBP \<equiv> 0x55"
abbreviation (input) OPCODE_MOV_RM64_R64 :: byte where "OPCODE_MOV_RM64_R64 \<equiv> 0x89"
abbreviation (input) OPCODE_MOV_R64_RM64 :: byte where "OPCODE_MOV_R64_RM64 \<equiv> 0x8B"
abbreviation (input) OPCODE_SUB_IMM8_RSP :: byte where "OPCODE_SUB_IMM8_RSP \<equiv> 0x83"
abbreviation (input) OPCODE_ADD_IMM8_RSP :: byte where "OPCODE_ADD_IMM8_RSP \<equiv> 0x83"
abbreviation (input) OPCODE_MOV_IMM64_RAX :: byte where "OPCODE_MOV_IMM64_RAX \<equiv> 0xB8"
abbreviation (input) OPCODE_CALL_RM64 :: byte where "OPCODE_CALL_RM64 \<equiv> 0xFF"
abbreviation (input) OPCODE_RET :: byte where "OPCODE_RET \<equiv> 0xC3"
abbreviation (input) OPCODE_PUSH_R12_BYTE :: byte where "OPCODE_PUSH_R12_BYTE \<equiv> 0x54"
abbreviation (input) OPCODE_POP_R12_BYTE :: byte where "OPCODE_POP_R12_BYTE \<equiv> 0x5C"
abbreviation (input) OPCODE_PUSH_R14_BYTE :: byte where "OPCODE_PUSH_R14_BYTE \<equiv> 0x56"
abbreviation (input) OPCODE_POP_R14_BYTE :: byte where "OPCODE_POP_R14_BYTE \<equiv> 0x5E"
abbreviation (input) OPCODE_POP_RBP :: byte where "OPCODE_POP_RBP \<equiv> 0x5D"
abbreviation (input) OPCODE_PUSH_R13_BYTE :: byte where "OPCODE_PUSH_R13_BYTE \<equiv> 0x55"
abbreviation (input) OPCODE_POP_R13_BYTE :: byte where "OPCODE_POP_R13_BYTE \<equiv> 0x5D"

abbreviation (input) PREFIX_MOVSS :: byte where "PREFIX_MOVSS \<equiv> 0xF3"
abbreviation (input) PREFIX_MOVSD :: byte where "PREFIX_MOVSD \<equiv> 0xF2"
abbreviation (input) OPCODE_XMM_MOV_XMM_RM :: byte where "OPCODE_XMM_MOV_XMM_RM \<equiv> 0x10"
abbreviation (input) OPCODE_XMM_MOV_RM_XMM :: byte where "OPCODE_XMM_MOV_RM_XMM \<equiv> 0x11"

abbreviation (input) REX_W_PREFIX :: byte where "REX_W_PREFIX \<equiv> 0x48"
abbreviation (input) REX_R_BIT :: byte where "REX_R_BIT \<equiv> 0x04"
abbreviation (input) REX_X_BIT :: byte where "REX_X_BIT \<equiv> 0x02"
abbreviation (input) REX_B_BIT :: byte where "REX_B_BIT \<equiv> 0x01"
abbreviation (input) REX_WR_PREFIX :: byte where "REX_WR_PREFIX \<equiv> REX_W_PREFIX OR REX_R_BIT"
abbreviation (input) REX_WB_PREFIX :: byte where "REX_WB_PREFIX \<equiv> REX_W_PREFIX OR REX_B_BIT"
abbreviation (input) REX_BASE_0x40_BIT :: byte where "REX_BASE_0x40_BIT \<equiv> 0x40"
abbreviation (input) REX_B_PREFIX_32BIT_OP :: byte where
  "REX_B_PREFIX_32BIT_OP \<equiv> REX_BASE_0x40_BIT OR REX_B_BIT"
abbreviation (input) REX_PUSH_POP_R12_PREFIX :: byte where
  "REX_PUSH_POP_R12_PREFIX \<equiv> REX_BASE_0x40_BIT OR REX_B_BIT"
abbreviation (input) REX_PUSH_POP_R14_PREFIX :: byte where
  "REX_PUSH_POP_R14_PREFIX \<equiv> REX_BASE_0x40_BIT OR REX_B_BIT"
abbreviation (input) REX_PUSH_POP_R13_PREFIX :: byte where
  "REX_PUSH_POP_R13_PREFIX \<equiv> REX_BASE_0x40_BIT OR REX_B_BIT"

abbreviation (input) MODRM_REG_RAX :: byte where "MODRM_REG_RAX \<equiv> 0x00"
abbreviation (input) MODRM_REG_RCX :: byte where "MODRM_REG_RCX \<equiv> 0x01"
abbreviation (input) MODRM_REG_RDX :: byte where "MODRM_REG_RDX \<equiv> 0x02"
abbreviation (input) MODRM_REG_RSP :: byte where "MODRM_REG_RSP \<equiv> 0x04"
abbreviation (input) MODRM_REG_RBP :: byte where "MODRM_REG_RBP \<equiv> 0x05"
abbreviation (input) MODRM_REG_RSI :: byte where "MODRM_REG_RSI \<equiv> 0x06"
abbreviation (input) MODRM_REG_RDI :: byte where "MODRM_REG_RDI \<equiv> 0x07"
abbreviation (input) MODRM_REG_R8_CODE :: byte where "MODRM_REG_R8_CODE \<equiv> 0x00"
abbreviation (input) MODRM_REG_R9_CODE :: byte where "MODRM_REG_R9_CODE \<equiv> 0x01"
abbreviation (input) MODRM_REG_R10_CODE :: byte where "MODRM_REG_R10_CODE \<equiv> 0x02"
abbreviation (input) MODRM_REG_R11_CODE :: byte where "MODRM_REG_R11_CODE \<equiv> 0x03"
abbreviation (input) MODRM_REG_R12_CODE :: byte where "MODRM_REG_R12_CODE \<equiv> 0x04"
abbreviation (input) MODRM_REG_R13_CODE :: byte where "MODRM_REG_R13_CODE \<equiv> 0x05"
abbreviation (input) MODRM_REG_R14_CODE :: byte where "MODRM_REG_R14_CODE \<equiv> 0x06"
abbreviation (input) MODRM_REG_XMM0_CODE :: byte where "MODRM_REG_XMM0_CODE \<equiv> 0x00"
abbreviation (input) MODRM_REG_XMM7_CODE :: byte where "MODRM_REG_XMM7_CODE \<equiv> 0x07"

abbreviation (input) MOD_INDIRECT :: byte where "MOD_INDIRECT \<equiv> 0x00"
abbreviation (input) MOD_DISP8 :: byte where "MOD_DISP8 \<equiv> 0x01"
abbreviation (input) MOD_REGISTER :: byte where "MOD_REGISTER \<equiv> 0x03"
abbreviation (input) RM_SIB_BYTE_FOLLOWS :: byte where "RM_SIB_BYTE_FOLLOWS \<equiv> 0x04"

abbreviation (input) SIB_SCALE_1X :: byte where "SIB_SCALE_1X \<equiv> 0x00"
abbreviation (input) SIB_INDEX_NONE :: byte where "SIB_INDEX_NONE \<equiv> 0x04"
abbreviation (input) SIB_BASE_R12 :: byte where "SIB_BASE_R12 \<equiv> 0x04"
abbreviation (input) SIB_BASE_R14 :: byte where "SIB_BASE_R14 \<equiv> 0x06"

text \<open>The recurring C expression \<^verbatim>\<open>(mod << 6) | (reg << 3) | rm\<close> (ModR/M and SIB bytes).\<close>

definition modrm :: "byte \<Rightarrow> byte \<Rightarrow> byte \<Rightarrow> byte" where
  "modrm md reg rm = push_bit 6 md OR push_bit 3 reg OR rm"

abbreviation (input) SIB_BYTE_R12_BASE :: byte where
  "SIB_BYTE_R12_BASE \<equiv> modrm SIB_SCALE_1X SIB_INDEX_NONE SIB_BASE_R12"
abbreviation (input) SIB_BYTE_R14_BASE :: byte where
  "SIB_BYTE_R14_BASE \<equiv> modrm SIB_SCALE_1X SIB_INDEX_NONE SIB_BASE_R14"
abbreviation (input) SIB_BYTE_RSP :: byte where
  "SIB_BYTE_RSP \<equiv> modrm SIB_SCALE_1X SIB_INDEX_NONE MODRM_REG_RSP"

text \<open>The bytes of a 64-bit and of a 32-bit object on a little-endian host.\<close>

definition le_bytes64 :: "64 word \<Rightarrow> byte list" where
  "le_bytes64 w = map (\<lambda>k. ucast (drop_bit (8 * k) w)) [0, 1, 2, 3, 4, 5, 6, 7]"

definition le_bytes32 :: "32 word \<Rightarrow> byte list" where
  "le_bytes32 w = map (\<lambda>k. ucast (drop_bit (8 * k) w)) [0, 1, 2, 3]"

section \<open>Argument classification shared by the generators\<close>

definition is_xmm_type :: "FFI_Type \<Rightarrow> bool" where
  "is_xmm_type t \<longleftrightarrow> t = FFI_TYPE_FLOAT \<or> t = FFI_TYPE_DOUBLE"

definition is_int128_type :: "FFI_Type \<Rightarrow> bool" where
  "is_int128_type t \<longleftrightarrow> t = FFI_TYPE_INT128 \<or> t = FFI_TYPE_UINT128"

text \<open>
  The three running indices of a marshalling loop
  (\<^verbatim>\<open>gp_reg_idx\<close>, \<^verbatim>\<open>xmm_reg_idx\<close>, \<^verbatim>\<open>stack_arg_current_idx\<close>).
\<close>

record marshal_idx =
  gp_reg_idx :: nat
  xmm_reg_idx :: nat
  stack_arg_current_idx :: nat

definition idx0 :: marshal_idx where
  "idx0 = \<lparr>gp_reg_idx = 0, xmm_reg_idx = 0, stack_arg_current_idx = 0\<rparr>"

text \<open>
  A generator writes its bytes through \<^verbatim>\<open>current_code_ptr\<close>, with no bound, and returns a
  \<^verbatim>\<open>size_t\<close>: the pair of the bytes it has written to \<^verbatim>\<open>code_buffer\<close> and the size it
  returns. On a \<^verbatim>\<open>return 0\<close> the bytes written up to there are in the buffer and the
  size is 0; otherwise the size is the number of bytes written.
\<close>

type_synonym emitted = "byte list \<times> nat"

text \<open>
  The \<^verbatim>\<open>while ((final_stack_subtraction % 16) != 0) final_stack_subtraction++\<close> loop
  of the System V generator.
\<close>

function align16_loop :: "nat \<Rightarrow> nat" where
  "align16_loop n = (if n mod 16 \<noteq> 0 then align16_loop (n + 1) else n)"
  by pat_completeness auto
termination
proof (relation "measure (\<lambda>n. (16 - n mod 16) mod 16)")
  show "wf (measure (\<lambda>n. (16 - n mod 16) mod 16))" by simp
next
  fix n :: nat
  assume a: "n mod 16 \<noteq> 0"
  have "(n + 1) mod 16 = (if n mod 16 = 15 then 0 else n mod 16 + 1)"
    by (simp add: mod_Suc)
  with a show "(n + 1, n) \<in> measure (\<lambda>n. (16 - n mod 16) mod 16)"
    by auto
qed

declare align16_loop.simps [simp del]


section \<open>System V AMD64 generator (cross.c, lines 693-1174)\<close>

text \<open>Prologue: \<^verbatim>\<open>endbr64; push rbp; mov rbp, rsp; push r14; mov r14, rdi; push r12; mov r12, rdx\<close>.\<close>

definition sysv_prologue :: "byte list" where
  "sysv_prologue =
    [0xF3, 0x0F, 0x1E, OPCODE_END_BRANCH_64,
     OPCODE_PUSH_RBP,
     REX_W_PREFIX, OPCODE_MOV_RM64_R64, modrm MOD_REGISTER MODRM_REG_RSP MODRM_REG_RBP,
     REX_PUSH_POP_R14_PREFIX, OPCODE_PUSH_R14_BYTE,
     REX_WB_PREFIX, OPCODE_MOV_RM64_R64, modrm MOD_REGISTER MODRM_REG_RDI MODRM_REG_R14_CODE,
     REX_PUSH_POP_R12_PREFIX, OPCODE_PUSH_R12_BYTE,
     REX_WB_PREFIX, OPCODE_MOV_RM64_R64, modrm MOD_REGISTER MODRM_REG_RDX MODRM_REG_R12_CODE]"

text \<open>
  First loop (lines 747-770): counts
  \<open>(num_gp_regs_used, num_xmm_regs_used, num_stack_args)\<close>.
\<close>

fun sysv_count_args :: "FFI_Type list \<Rightarrow> nat \<times> nat \<times> nat \<Rightarrow> nat \<times> nat \<times> nat" where
  "sysv_count_args [] c = c"
| "sysv_count_args (param_type # ts) (num_gp_regs_used, num_xmm_regs_used, num_stack_args) =
     sysv_count_args ts
       (if param_type = FFI_TYPE_FLOAT \<or> param_type = FFI_TYPE_DOUBLE then
          (if num_xmm_regs_used < 8
           then (num_gp_regs_used, num_xmm_regs_used + 1, num_stack_args)
           else (num_gp_regs_used, num_xmm_regs_used, num_stack_args + 1))
        else if param_type = FFI_TYPE_INT128 \<or> param_type = FFI_TYPE_UINT128 then
          (if num_gp_regs_used \<le> 4
           then (num_gp_regs_used + 2, num_xmm_regs_used, num_stack_args)
           else (num_gp_regs_used, num_xmm_regs_used, num_stack_args + 2))
        else
          (if num_gp_regs_used < 6
           then (num_gp_regs_used + 1, num_xmm_regs_used, num_stack_args)
           else (num_gp_regs_used, num_xmm_regs_used, num_stack_args + 1)))"

definition sysv_num_stack_args :: "FFI_FunctionSignature \<Rightarrow> nat" where
  "sysv_num_stack_args sig = snd (snd (sysv_count_args (param_types sig) (0, 0, 0)))"

text \<open>Lines 772-791: \<^verbatim>\<open>final_stack_subtraction\<close>.\<close>

definition sysv_final_stack_subtraction :: "FFI_FunctionSignature \<Rightarrow> nat" where
  "sysv_final_stack_subtraction sig =
     (let num_stack_args = sysv_num_stack_args sig;
          stack_args_total_size = num_stack_args * 8
      in if num_stack_args > 0 then align16_loop stack_args_total_size else 0)"

text \<open>Lines 794-804: \<^verbatim>\<open>sub rsp, imm8\<close> when the subtraction is positive, then \<^verbatim>\<open>mov al, 0\<close>.\<close>

definition sysv_reserve_stack :: "FFI_FunctionSignature \<Rightarrow> byte list" where
  "sysv_reserve_stack sig =
     (let final_stack_subtraction = sysv_final_stack_subtraction sig
      in (if final_stack_subtraction > 0
          then [REX_W_PREFIX, OPCODE_SUB_IMM8_RSP, modrm MOD_REGISTER 0x05 MODRM_REG_RSP,
                of_nat final_stack_subtraction]
          else [])
         @ [0xB0, 0x00])"

definition sysv_gp_arg_regs :: "byte list" where
  "sysv_gp_arg_regs =
     [MODRM_REG_RDI, MODRM_REG_RSI, MODRM_REG_RDX, MODRM_REG_RCX, MODRM_REG_R8_CODE, MODRM_REG_R9_CODE]"

definition sysv_gp_arg_regs_needs_rex_r :: "bool list" where
  "sysv_gp_arg_regs_needs_rex_r = [False, False, False, False, True, True]"

text \<open>
  The type switch that loads one integer-class value from \<^verbatim>\<open>[R10]\<close>. The switch of the
  register branch (lines 885-933) and the one of the stack branch (lines 997-1028) are
  the same text up to the names of their variables: \<open>rex\<close> is the REX prefix prepared
  before the switch, \<open>m\<close> the ModR/M byte. \<open>None\<close> is \<^verbatim>\<open>default: return 0\<close>.
\<close>

fun sysv_load_switch :: "FFI_Type \<Rightarrow> byte \<Rightarrow> byte \<Rightarrow> byte list option" where
  "sysv_load_switch FFI_TYPE_BOOL rex m = Some [rex OR REX_W_PREFIX, 0x0F, 0xB6, m]"
| "sysv_load_switch FFI_TYPE_CHAR rex m = Some [rex OR REX_W_PREFIX, 0x0F, 0xB6, m]"
| "sysv_load_switch FFI_TYPE_UCHAR rex m = Some [rex OR REX_W_PREFIX, 0x0F, 0xB6, m]"
| "sysv_load_switch FFI_TYPE_SCHAR rex m = Some [rex OR REX_W_PREFIX, 0x0F, 0xBE, m]"
| "sysv_load_switch FFI_TYPE_SHORT rex m = Some [0x66, rex OR REX_W_PREFIX, 0x0F, 0xBF, m]"
| "sysv_load_switch FFI_TYPE_SSHORT rex m = Some [0x66, rex OR REX_W_PREFIX, 0x0F, 0xBF, m]"
| "sysv_load_switch FFI_TYPE_USHORT rex m = Some [0x66, rex OR REX_W_PREFIX, 0x0F, 0xB7, m]"
| "sysv_load_switch FFI_TYPE_INT rex m = Some [rex OR REX_W_PREFIX, 0x63, m]"
| "sysv_load_switch FFI_TYPE_SINT rex m = Some [rex OR REX_W_PREFIX, 0x63, m]"
| "sysv_load_switch FFI_TYPE_WCHAR rex m = Some [rex OR REX_W_PREFIX, 0x63, m]"
| "sysv_load_switch FFI_TYPE_UINT rex m = Some [rex, OPCODE_MOV_R64_RM64, m]"
| "sysv_load_switch FFI_TYPE_LONG rex m = Some [rex OR REX_W_PREFIX, OPCODE_MOV_R64_RM64, m]"
| "sysv_load_switch FFI_TYPE_ULONG rex m = Some [rex OR REX_W_PREFIX, OPCODE_MOV_R64_RM64, m]"
| "sysv_load_switch FFI_TYPE_LLONG rex m = Some [rex OR REX_W_PREFIX, OPCODE_MOV_R64_RM64, m]"
| "sysv_load_switch FFI_TYPE_ULLONG rex m = Some [rex OR REX_W_PREFIX, OPCODE_MOV_R64_RM64, m]"
| "sysv_load_switch FFI_TYPE_POINTER rex m = Some [rex OR REX_W_PREFIX, OPCODE_MOV_R64_RM64, m]"
| "sysv_load_switch FFI_TYPE_SIZE_T rex m = Some [rex OR REX_W_PREFIX, OPCODE_MOV_R64_RM64, m]"
| "sysv_load_switch FFI_TYPE_SLONG rex m = Some [rex OR REX_W_PREFIX, OPCODE_MOV_R64_RM64, m]"
| "sysv_load_switch FFI_TYPE_SLLONG rex m = Some [rex OR REX_W_PREFIX, OPCODE_MOV_R64_RM64, m]"
| "sysv_load_switch _ rex m = None"

text \<open>Lines 820-825: \<^verbatim>\<open>mov r10, [r14 + i * sizeof(FFI_Argument)]\<close>, the offset cut to 8 bits.\<close>

definition sysv_load_value_ptr :: "nat \<Rightarrow> byte list" where
  "sysv_load_value_ptr i =
     [REX_WR_PREFIX OR REX_B_BIT, OPCODE_MOV_R64_RM64,
      modrm MOD_DISP8 MODRM_REG_R10_CODE MODRM_REG_R14_CODE, of_nat (i * 8)]"

text \<open>
  The \<^verbatim>\<open>if (to_stack)\<close> block (lines 940-1042): the bytes it writes and the indices after
  it. \<open>None\<close> is the \<^verbatim>\<open>default: return 0\<close> of its type switch, which comes before the block
  has written anything.
\<close>

definition sysv_spill_arg ::
  "FFI_Type \<Rightarrow> marshal_idx \<Rightarrow> (byte list \<times> marshal_idx) option" where
  "sysv_spill_arg param_type c =
     (let k = stack_arg_current_idx c in
      if is_int128_type param_type then
        Some ([REX_WR_PREFIX OR REX_B_BIT, OPCODE_MOV_R64_RM64,
               modrm MOD_INDIRECT MODRM_REG_R11_CODE MODRM_REG_R10_CODE,
               REX_PUSH_POP_R13_PREFIX OR REX_W_PREFIX OR REX_R_BIT, OPCODE_MOV_R64_RM64,
               modrm MOD_DISP8 MODRM_REG_R13_CODE MODRM_REG_R10_CODE, 0x08,
               REX_W_PREFIX OR REX_R_BIT, OPCODE_MOV_RM64_R64,
               modrm MOD_DISP8 MODRM_REG_R11_CODE RM_SIB_BYTE_FOLLOWS, SIB_BYTE_RSP,
               of_nat (k * 8),
               REX_W_PREFIX OR REX_R_BIT, OPCODE_MOV_RM64_R64,
               modrm MOD_DISP8 MODRM_REG_R13_CODE RM_SIB_BYTE_FOLLOWS, SIB_BYTE_RSP,
               of_nat ((k + 1) * 8)],
              c\<lparr>stack_arg_current_idx := k + 2\<rparr>)
      else if is_xmm_type param_type then
        (let xmm_prefix = (if param_type = FFI_TYPE_FLOAT then PREFIX_MOVSS else PREFIX_MOVSD) in
         Some ([xmm_prefix, REX_BASE_0x40_BIT OR REX_R_BIT OR REX_B_BIT, 0x0F, OPCODE_XMM_MOV_XMM_RM,
                modrm MOD_INDIRECT MODRM_REG_XMM7_CODE MODRM_REG_R10_CODE,
                xmm_prefix, REX_BASE_0x40_BIT OR REX_R_BIT, 0x0F, OPCODE_XMM_MOV_RM_XMM,
                modrm MOD_DISP8 MODRM_REG_XMM7_CODE RM_SIB_BYTE_FOLLOWS, SIB_BYTE_RSP,
                of_nat (k * 8)],
               c\<lparr>stack_arg_current_idx := k + 1\<rparr>))
      else
        (let stack_offset_from_rsp_base = k * 8;
             load_rex_prefix = REX_BASE_0x40_BIT OR REX_B_BIT OR REX_R_BIT;
             load_modrm = modrm MOD_INDIRECT MODRM_REG_R11_CODE MODRM_REG_R10_CODE
         in case sysv_load_switch param_type load_rex_prefix load_modrm of
              None \<Rightarrow> None
            | Some load \<Rightarrow>
                (let store_modrm_mod =
                       (if stack_offset_from_rsp_base = 0 then MOD_INDIRECT else MOD_DISP8)
                 in Some (load
                          @ [REX_W_PREFIX OR REX_R_BIT, OPCODE_MOV_RM64_R64,
                             modrm store_modrm_mod MODRM_REG_R11_CODE RM_SIB_BYTE_FOLLOWS,
                             SIB_BYTE_RSP]
                          @ (if stack_offset_from_rsp_base \<noteq> 0
                             then [of_nat stack_offset_from_rsp_base] else []),
                          c\<lparr>stack_arg_current_idx := k + 1\<rparr>))))"

text \<open>
  One iteration of the marshalling loop (lines 817-1043) for parameter \<open>i\<close>: the bytes
  it writes and the indices after it. The indices are \<open>None\<close> when the iteration ends
  in \<^verbatim>\<open>return 0\<close>; it has then written the load of \<^verbatim>\<open>args[i].value_ptr\<close> only.
\<close>

definition sysv_marshal_arg ::
  "nat \<Rightarrow> FFI_Type \<Rightarrow> marshal_idx \<Rightarrow> byte list \<times> marshal_idx option" where
  "sysv_marshal_arg i param_type c =
     (let g = gp_reg_idx c; x = xmm_reg_idx c in
      case
       (if is_xmm_type param_type then
          (if x < 8 then
             (let xmm_prefix = (if param_type = FFI_TYPE_FLOAT then PREFIX_MOVSS else PREFIX_MOVSD);
                  xmm_rex_prefix = REX_BASE_0x40_BIT OR REX_B_BIT
              in Some ([xmm_prefix, xmm_rex_prefix, 0x0F, OPCODE_XMM_MOV_XMM_RM,
                        modrm MOD_INDIRECT (MODRM_REG_XMM0_CODE + of_nat x) MODRM_REG_R10_CODE],
                       c\<lparr>xmm_reg_idx := x + 1\<rparr>))
           else sysv_spill_arg param_type c)
        else if is_int128_type param_type then
          (if g \<le> 4 then
             (let dest_reg_low = sysv_gp_arg_regs ! g;
                  needs_rex_r_low = sysv_gp_arg_regs_needs_rex_r ! g;
                  rex_prefix_low = (REX_W_PREFIX OR REX_B_BIT)
                                   OR (if needs_rex_r_low then REX_R_BIT else 0);
                  dest_reg_high = sysv_gp_arg_regs ! (g + 1);
                  needs_rex_r_high = sysv_gp_arg_regs_needs_rex_r ! (g + 1);
                  rex_prefix_high = (REX_W_PREFIX OR REX_B_BIT)
                                    OR (if needs_rex_r_high then REX_R_BIT else 0)
              in Some ([rex_prefix_low, OPCODE_MOV_R64_RM64,
                        modrm MOD_INDIRECT dest_reg_low MODRM_REG_R10_CODE,
                        rex_prefix_high, OPCODE_MOV_R64_RM64,
                        modrm MOD_DISP8 dest_reg_high MODRM_REG_R10_CODE, 0x08],
                       c\<lparr>gp_reg_idx := g + 2\<rparr>))
           else sysv_spill_arg param_type c)
        else
          (if g < 6 then
             (let dest_reg_code = sysv_gp_arg_regs ! g;
                  use_rex_r_for_dest_reg = sysv_gp_arg_regs_needs_rex_r ! g;
                  modrm_byte = modrm MOD_INDIRECT dest_reg_code MODRM_REG_R10_CODE;
                  final_rex_prefix = (REX_BASE_0x40_BIT OR REX_B_BIT)
                                     OR (if use_rex_r_for_dest_reg then REX_R_BIT else 0)
              in map_option (\<lambda>bs. (bs, c\<lparr>gp_reg_idx := g + 1\<rparr>))
                   (sysv_load_switch param_type final_rex_prefix modrm_byte))
           else sysv_spill_arg param_type c))
      of
        None \<Rightarrow> (sysv_load_value_ptr i, None)
      | Some (bs, c') \<Rightarrow> (sysv_load_value_ptr i @ bs, Some c'))"

text \<open>
  The marshalling loop over parameters \<open>i, i + 1, \<dots>\<close>: the bytes written, and whether
  the loop ran to its end (\<open>False\<close>: an iteration ended in \<^verbatim>\<open>return 0\<close>).
\<close>

fun sysv_marshal_args :: "nat \<Rightarrow> FFI_Type list \<Rightarrow> marshal_idx \<Rightarrow> byte list \<times> bool" where
  "sysv_marshal_args i [] c = ([], True)"
| "sysv_marshal_args i (param_type # ts) c =
     (case sysv_marshal_arg i param_type c of
        (bs, None) \<Rightarrow> (bs, False)
      | (bs, Some c') \<Rightarrow>
          (case sysv_marshal_args (Suc i) ts c' of (bs', finished) \<Rightarrow> (bs @ bs', finished)))"

text \<open>
  Lines 1047-1061: \<^verbatim>\<open>movabs rax, func_ptr; call rax\<close>. \<^verbatim>\<open>target_addr_val\<close> is a \<^verbatim>\<open>long\<close>,
  64 bits wide on the hosts of this generator (LP64), and \<^verbatim>\<open>memcpy\<close> copies its 8 bytes.
\<close>

definition sysv_call_target :: "FFI_FunctionSignature \<Rightarrow> byte list" where
  "sysv_call_target sig =
     [REX_W_PREFIX, OPCODE_MOV_IMM64_RAX] @ le_bytes64 (func_ptr sig)
     @ [OPCODE_CALL_RM64, modrm MOD_REGISTER 0x02 MODRM_REG_RAX]"

text \<open>
  Lines 1063-1148: store the return value through R12. \<open>None\<close> is the \<^verbatim>\<open>default: return 0\<close>
  of the switch; \<^verbatim>\<open>FFI_TYPE_VOID\<close> skips the switch.
\<close>

fun sysv_store_return :: "FFI_Type \<Rightarrow> byte list option" where
  "sysv_store_return FFI_TYPE_VOID = Some []"
| "sysv_store_return FFI_TYPE_BOOL =
     Some [REX_B_PREFIX_32BIT_OP, 0x88, modrm MOD_INDIRECT MODRM_REG_RAX RM_SIB_BYTE_FOLLOWS, SIB_BYTE_R12_BASE]"
| "sysv_store_return FFI_TYPE_CHAR =
     Some [REX_B_PREFIX_32BIT_OP, 0x88, modrm MOD_INDIRECT MODRM_REG_RAX RM_SIB_BYTE_FOLLOWS, SIB_BYTE_R12_BASE]"
| "sysv_store_return FFI_TYPE_UCHAR =
     Some [REX_B_PREFIX_32BIT_OP, 0x88, modrm MOD_INDIRECT MODRM_REG_RAX RM_SIB_BYTE_FOLLOWS, SIB_BYTE_R12_BASE]"
| "sysv_store_return FFI_TYPE_SCHAR =
     Some [REX_B_PREFIX_32BIT_OP, 0x88, modrm MOD_INDIRECT MODRM_REG_RAX RM_SIB_BYTE_FOLLOWS, SIB_BYTE_R12_BASE]"
| "sysv_store_return FFI_TYPE_SHORT =
     Some [0x66, REX_B_PREFIX_32BIT_OP, 0x89, modrm MOD_INDIRECT MODRM_REG_RAX RM_SIB_BYTE_FOLLOWS, SIB_BYTE_R12_BASE]"
| "sysv_store_return FFI_TYPE_USHORT =
     Some [0x66, REX_B_PREFIX_32BIT_OP, 0x89, modrm MOD_INDIRECT MODRM_REG_RAX RM_SIB_BYTE_FOLLOWS, SIB_BYTE_R12_BASE]"
| "sysv_store_return FFI_TYPE_SSHORT =
     Some [0x66, REX_B_PREFIX_32BIT_OP, 0x89, modrm MOD_INDIRECT MODRM_REG_RAX RM_SIB_BYTE_FOLLOWS, SIB_BYTE_R12_BASE]"
| "sysv_store_return FFI_TYPE_INT =
     Some [REX_B_PREFIX_32BIT_OP, OPCODE_MOV_RM64_R64, modrm MOD_INDIRECT MODRM_REG_RAX RM_SIB_BYTE_FOLLOWS, SIB_BYTE_R12_BASE]"
| "sysv_store_return FFI_TYPE_UINT =
     Some [REX_B_PREFIX_32BIT_OP, OPCODE_MOV_RM64_R64, modrm MOD_INDIRECT MODRM_REG_RAX RM_SIB_BYTE_FOLLOWS, SIB_BYTE_R12_BASE]"
| "sysv_store_return FFI_TYPE_SINT =
     Some [REX_B_PREFIX_32BIT_OP, OPCODE_MOV_RM64_R64, modrm MOD_INDIRECT MODRM_REG_RAX RM_SIB_BYTE_FOLLOWS, SIB_BYTE_R12_BASE]"
| "sysv_store_return FFI_TYPE_WCHAR =
     Some [REX_B_PREFIX_32BIT_OP, OPCODE_MOV_RM64_R64, modrm MOD_INDIRECT MODRM_REG_RAX RM_SIB_BYTE_FOLLOWS, SIB_BYTE_R12_BASE]"
| "sysv_store_return FFI_TYPE_LONG =
     Some [REX_WB_PREFIX, OPCODE_MOV_RM64_R64, modrm MOD_INDIRECT MODRM_REG_RAX RM_SIB_BYTE_FOLLOWS, SIB_BYTE_R12_BASE]"
| "sysv_store_return FFI_TYPE_ULONG =
     Some [REX_WB_PREFIX, OPCODE_MOV_RM64_R64, modrm MOD_INDIRECT MODRM_REG_RAX RM_SIB_BYTE_FOLLOWS, SIB_BYTE_R12_BASE]"
| "sysv_store_return FFI_TYPE_LLONG =
     Some [REX_WB_PREFIX, OPCODE_MOV_RM64_R64, modrm MOD_INDIRECT MODRM_REG_RAX RM_SIB_BYTE_FOLLOWS, SIB_BYTE_R12_BASE]"
| "sysv_store_return FFI_TYPE_ULLONG =
     Some [REX_WB_PREFIX, OPCODE_MOV_RM64_R64, modrm MOD_INDIRECT MODRM_REG_RAX RM_SIB_BYTE_FOLLOWS, SIB_BYTE_R12_BASE]"
| "sysv_store_return FFI_TYPE_POINTER =
     Some [REX_WB_PREFIX, OPCODE_MOV_RM64_R64, modrm MOD_INDIRECT MODRM_REG_RAX RM_SIB_BYTE_FOLLOWS, SIB_BYTE_R12_BASE]"
| "sysv_store_return FFI_TYPE_SIZE_T =
     Some [REX_WB_PREFIX, OPCODE_MOV_RM64_R64, modrm MOD_INDIRECT MODRM_REG_RAX RM_SIB_BYTE_FOLLOWS, SIB_BYTE_R12_BASE]"
| "sysv_store_return FFI_TYPE_SLONG =
     Some [REX_WB_PREFIX, OPCODE_MOV_RM64_R64, modrm MOD_INDIRECT MODRM_REG_RAX RM_SIB_BYTE_FOLLOWS, SIB_BYTE_R12_BASE]"
| "sysv_store_return FFI_TYPE_SLLONG =
     Some [REX_WB_PREFIX, OPCODE_MOV_RM64_R64, modrm MOD_INDIRECT MODRM_REG_RAX RM_SIB_BYTE_FOLLOWS, SIB_BYTE_R12_BASE]"
| "sysv_store_return FFI_TYPE_FLOAT =
     Some [PREFIX_MOVSS, REX_BASE_0x40_BIT OR REX_B_BIT, 0x0F, OPCODE_XMM_MOV_RM_XMM,
           modrm MOD_INDIRECT MODRM_REG_XMM0_CODE RM_SIB_BYTE_FOLLOWS, SIB_BYTE_R12_BASE]"
| "sysv_store_return FFI_TYPE_DOUBLE =
     Some [PREFIX_MOVSD, REX_BASE_0x40_BIT OR REX_B_BIT, 0x0F, OPCODE_XMM_MOV_RM_XMM,
           modrm MOD_INDIRECT MODRM_REG_XMM0_CODE RM_SIB_BYTE_FOLLOWS, SIB_BYTE_R12_BASE]"
| "sysv_store_return FFI_TYPE_INT128 =
     Some [REX_WB_PREFIX, OPCODE_MOV_RM64_R64, modrm MOD_INDIRECT MODRM_REG_RAX RM_SIB_BYTE_FOLLOWS, SIB_BYTE_R12_BASE,
           REX_WB_PREFIX, OPCODE_MOV_RM64_R64, modrm MOD_DISP8 MODRM_REG_RDX RM_SIB_BYTE_FOLLOWS, SIB_BYTE_R12_BASE, 0x08]"
| "sysv_store_return FFI_TYPE_UINT128 =
     Some [REX_WB_PREFIX, OPCODE_MOV_RM64_R64, modrm MOD_INDIRECT MODRM_REG_RAX RM_SIB_BYTE_FOLLOWS, SIB_BYTE_R12_BASE,
           REX_WB_PREFIX, OPCODE_MOV_RM64_R64, modrm MOD_DISP8 MODRM_REG_RDX RM_SIB_BYTE_FOLLOWS, SIB_BYTE_R12_BASE, 0x08]"
| "sysv_store_return FFI_TYPE_UNKNOWN = None"

text \<open>Lines 1150-1171: \<^verbatim>\<open>add rsp, imm8\<close> when space was reserved; \<^verbatim>\<open>pop r12; pop r14; pop rbp; ret\<close>.\<close>

definition sysv_epilogue :: "FFI_FunctionSignature \<Rightarrow> byte list" where
  "sysv_epilogue sig =
     (let final_stack_subtraction = sysv_final_stack_subtraction sig
      in (if final_stack_subtraction > 0
          then [REX_W_PREFIX, OPCODE_ADD_IMM8_RSP, modrm MOD_REGISTER 0x00 MODRM_REG_RSP,
                of_nat final_stack_subtraction]
          else [])
         @ [REX_PUSH_POP_R12_PREFIX, OPCODE_POP_R12_BYTE,
            REX_PUSH_POP_R14_PREFIX, OPCODE_POP_R14_BYTE,
            OPCODE_POP_RBP,
            OPCODE_RET])"

text \<open>
  \<^verbatim>\<open>generate_x86_64_sysv_trampoline\<close>: the bytes written to \<^verbatim>\<open>code_buffer\<close> and the size
  returned. The two \<^verbatim>\<open>return 0\<close> exits are in the marshalling loop and, after the call
  has been written, in the switch that stores the return value.
\<close>

definition generate_x86_64_sysv_trampoline :: "FFI_FunctionSignature \<Rightarrow> emitted" where
  "generate_x86_64_sysv_trampoline sig =
     (case sysv_marshal_args 0 (param_types sig) idx0 of
        (marshalling, finished) \<Rightarrow>
          (let written = sysv_prologue @ sysv_reserve_stack sig @ marshalling
           in if finished then
                (case sysv_store_return (return_type sig) of
                   None \<Rightarrow> (written @ sysv_call_target sig, 0)
                 | Some store \<Rightarrow>
                     (let code = written @ sysv_call_target sig @ store @ sysv_epilogue sig
                      in (code, length code)))
              else (written, 0)))"


section \<open>Microsoft x64 generator (cross.c, lines 1182-1670)\<close>

text \<open>Prologue: \<^verbatim>\<open>push rbp; mov rbp, rsp; push r13; mov r13, rcx; push r14; mov r14, r8\<close>.\<close>

definition win64_prologue :: "byte list" where
  "win64_prologue =
    [OPCODE_PUSH_RBP,
     REX_W_PREFIX, OPCODE_MOV_RM64_R64, modrm MOD_REGISTER MODRM_REG_RSP MODRM_REG_RBP,
     REX_PUSH_POP_R13_PREFIX, OPCODE_PUSH_R13_BYTE,
     REX_WB_PREFIX, OPCODE_MOV_RM64_R64, modrm MOD_REGISTER MODRM_REG_RCX MODRM_REG_R13_CODE,
     REX_PUSH_POP_R14_PREFIX, OPCODE_PUSH_R14_BYTE,
     REX_WR_PREFIX OR REX_B_BIT, OPCODE_MOV_RM64_R64,
     modrm MOD_REGISTER MODRM_REG_R8_CODE MODRM_REG_R14_CODE]"

text \<open>Lines 1234-1243: a 128-bit return value is returned through a pointer in RCX.\<close>

definition win64_return_struct_by_pointer :: "FFI_FunctionSignature \<Rightarrow> bool" where
  "win64_return_struct_by_pointer sig \<longleftrightarrow>
     return_type sig = FFI_TYPE_INT128 \<or> return_type sig = FFI_TYPE_UINT128"

text \<open>First loop (lines 1245-1268).\<close>

fun win64_count_args :: "FFI_Type list \<Rightarrow> nat \<times> nat \<times> nat \<Rightarrow> nat \<times> nat \<times> nat" where
  "win64_count_args [] c = c"
| "win64_count_args (param_type # ts) (num_gp_regs_used, num_xmm_regs_used, num_stack_args) =
     win64_count_args ts
       (if param_type = FFI_TYPE_FLOAT \<or> param_type = FFI_TYPE_DOUBLE then
          (if num_xmm_regs_used < 4
           then (num_gp_regs_used, num_xmm_regs_used + 1, num_stack_args)
           else (num_gp_regs_used, num_xmm_regs_used, num_stack_args + 1))
        else if param_type = FFI_TYPE_INT128 \<or> param_type = FFI_TYPE_UINT128 then
          (if num_gp_regs_used \<le> 2
           then (num_gp_regs_used + 2, num_xmm_regs_used, num_stack_args)
           else (num_gp_regs_used, num_xmm_regs_used, num_stack_args + 2))
        else
          (if num_gp_regs_used < 4
           then (num_gp_regs_used + 1, num_xmm_regs_used, num_stack_args)
           else (num_gp_regs_used, num_xmm_regs_used, num_stack_args + 1)))"

definition win64_counts :: "FFI_FunctionSignature \<Rightarrow> nat \<times> nat \<times> nat" where
  "win64_counts sig =
     win64_count_args (param_types sig)
       (if win64_return_struct_by_pointer sig then 1 else 0, 0, 0)"

definition win64_num_gp_regs_used :: "FFI_FunctionSignature \<Rightarrow> nat" where
  "win64_num_gp_regs_used sig = fst (win64_counts sig)"

definition win64_num_stack_args :: "FFI_FunctionSignature \<Rightarrow> nat" where
  "win64_num_stack_args sig = snd (snd (win64_counts sig))"

text \<open>Lines 1270-1284: \<^verbatim>\<open>total_stack_alloc\<close>.\<close>

definition win64_total_stack_alloc :: "FFI_FunctionSignature \<Rightarrow> nat" where
  "win64_total_stack_alloc sig =
     (let total_stack_alloc = 32 + win64_num_stack_args sig * 8
      in if (8 + total_stack_alloc) mod 16 \<noteq> 0 then total_stack_alloc + 8 else total_stack_alloc)"

text \<open>Lines 1286-1291: \<^verbatim>\<open>sub rsp, imm8\<close>.\<close>

definition win64_reserve_stack :: "FFI_FunctionSignature \<Rightarrow> byte list" where
  "win64_reserve_stack sig =
     (let total_stack_alloc = win64_total_stack_alloc sig
      in if total_stack_alloc > 0
         then [REX_W_PREFIX, OPCODE_SUB_IMM8_RSP, modrm MOD_REGISTER 0x05 MODRM_REG_RSP,
               of_nat total_stack_alloc]
         else [])"

definition win64_gp_arg_regs :: "byte list" where
  "win64_gp_arg_regs = [MODRM_REG_RCX, MODRM_REG_RDX, MODRM_REG_R8_CODE, MODRM_REG_R9_CODE]"

definition win64_gp_arg_regs_needs_rex_r :: "bool list" where
  "win64_gp_arg_regs_needs_rex_r = [False, False, True, True]"

text \<open>The type switch of the register branch (lines 1380-1436).\<close>

fun win64_reg_load_switch :: "FFI_Type \<Rightarrow> byte \<Rightarrow> byte \<Rightarrow> byte list option" where
  "win64_reg_load_switch FFI_TYPE_BOOL rex m = Some [rex OR REX_W_PREFIX, 0x0F, 0xB6, m]"
| "win64_reg_load_switch FFI_TYPE_CHAR rex m = Some [rex OR REX_W_PREFIX, 0x0F, 0xB6, m]"
| "win64_reg_load_switch FFI_TYPE_UCHAR rex m = Some [rex OR REX_W_PREFIX, 0x0F, 0xB6, m]"
| "win64_reg_load_switch FFI_TYPE_SCHAR rex m = Some [rex OR REX_W_PREFIX, 0x0F, 0xBE, m]"
| "win64_reg_load_switch FFI_TYPE_SHORT rex m = Some [0x66, rex OR REX_W_PREFIX, 0x0F, 0xBF, m]"
| "win64_reg_load_switch FFI_TYPE_SSHORT rex m = Some [0x66, rex OR REX_W_PREFIX, 0x0F, 0xBF, m]"
| "win64_reg_load_switch FFI_TYPE_USHORT rex m = Some [0x66, rex OR REX_W_PREFIX, 0x0F, 0xB7, m]"
| "win64_reg_load_switch FFI_TYPE_INT rex m = Some [0x66, rex OR REX_W_PREFIX, 0x0F, 0xB7, m]"
| "win64_reg_load_switch FFI_TYPE_SINT rex m = Some [0x66, rex OR REX_W_PREFIX, 0x0F, 0xB7, m]"
| "win64_reg_load_switch FFI_TYPE_WCHAR rex m = Some [0x66, rex OR REX_W_PREFIX, 0x0F, 0xB7, m]"
| "win64_reg_load_switch FFI_TYPE_UINT rex m = Some [rex, OPCODE_MOV_R64_RM64, m]"
| "win64_reg_load_switch FFI_TYPE_LONG rex m = Some [rex OR REX_W_PREFIX, 0x63, m]"
| "win64_reg_load_switch FFI_TYPE_ULONG rex m = Some [rex OR REX_W_PREFIX, OPCODE_MOV_R64_RM64, m]"
| "win64_reg_load_switch FFI_TYPE_SLONG rex m = Some [rex OR REX_W_PREFIX, 0x63, m]"
| "win64_reg_load_switch FFI_TYPE_LLONG rex m = Some [rex OR REX_W_PREFIX, OPCODE_MOV_R64_RM64, m]"
| "win64_reg_load_switch FFI_TYPE_ULLONG rex m = Some [rex OR REX_W_PREFIX, OPCODE_MOV_R64_RM64, m]"
| "win64_reg_load_switch FFI_TYPE_POINTER rex m = Some [rex OR REX_W_PREFIX, OPCODE_MOV_R64_RM64, m]"
| "win64_reg_load_switch FFI_TYPE_SIZE_T rex m = Some [rex OR REX_W_PREFIX, OPCODE_MOV_R64_RM64, m]"
| "win64_reg_load_switch FFI_TYPE_SLLONG rex m = Some [rex OR REX_W_PREFIX, OPCODE_MOV_R64_RM64, m]"
| "win64_reg_load_switch _ rex m = None"

text \<open>
  The type switch of the stack branch (lines 1500-1536). It has no case for
  \<^verbatim>\<open>FFI_TYPE_UINT\<close>; for \<^verbatim>\<open>FFI_TYPE_ULONG\<close> it clears the bits of \<^verbatim>\<open>REX_W_PREFIX\<close>
  from the prefix (\<^verbatim>\<open>load_rex_prefix &= ~REX_W_PREFIX\<close>).
\<close>

fun win64_stack_load_switch :: "FFI_Type \<Rightarrow> byte \<Rightarrow> byte \<Rightarrow> byte list option" where
  "win64_stack_load_switch FFI_TYPE_BOOL rex m = Some [rex OR REX_W_PREFIX, 0x0F, 0xB6, m]"
| "win64_stack_load_switch FFI_TYPE_CHAR rex m = Some [rex OR REX_W_PREFIX, 0x0F, 0xB6, m]"
| "win64_stack_load_switch FFI_TYPE_UCHAR rex m = Some [rex OR REX_W_PREFIX, 0x0F, 0xB6, m]"
| "win64_stack_load_switch FFI_TYPE_SCHAR rex m = Some [rex OR REX_W_PREFIX, 0x0F, 0xBE, m]"
| "win64_stack_load_switch FFI_TYPE_SHORT rex m = Some [0x66, rex OR REX_W_PREFIX, 0x0F, 0xBF, m]"
| "win64_stack_load_switch FFI_TYPE_SSHORT rex m = Some [0x66, rex OR REX_W_PREFIX, 0x0F, 0xBF, m]"
| "win64_stack_load_switch FFI_TYPE_USHORT rex m = Some [0x66, rex OR REX_W_PREFIX, 0x0F, 0xB7, m]"
| "win64_stack_load_switch FFI_TYPE_INT rex m = Some [rex OR REX_W_PREFIX, 0x63, m]"
| "win64_stack_load_switch FFI_TYPE_SINT rex m = Some [rex OR REX_W_PREFIX, 0x63, m]"
| "win64_stack_load_switch FFI_TYPE_LONG rex m = Some [rex OR REX_W_PREFIX, 0x63, m]"
| "win64_stack_load_switch FFI_TYPE_SLONG rex m = Some [rex OR REX_W_PREFIX, 0x63, m]"
| "win64_stack_load_switch FFI_TYPE_ULONG rex m =
     Some [(rex OR REX_W_PREFIX) AND NOT REX_W_PREFIX, OPCODE_MOV_R64_RM64, m]"
| "win64_stack_load_switch FFI_TYPE_WCHAR rex m = Some [0x66, rex OR REX_W_PREFIX, 0x0F, 0xB7, m]"
| "win64_stack_load_switch FFI_TYPE_LLONG rex m = Some [rex OR REX_W_PREFIX, OPCODE_MOV_R64_RM64, m]"
| "win64_stack_load_switch FFI_TYPE_ULLONG rex m = Some [rex OR REX_W_PREFIX, OPCODE_MOV_R64_RM64, m]"
| "win64_stack_load_switch FFI_TYPE_POINTER rex m = Some [rex OR REX_W_PREFIX, OPCODE_MOV_R64_RM64, m]"
| "win64_stack_load_switch FFI_TYPE_SIZE_T rex m = Some [rex OR REX_W_PREFIX, OPCODE_MOV_R64_RM64, m]"
| "win64_stack_load_switch FFI_TYPE_SLLONG rex m = Some [rex OR REX_W_PREFIX, OPCODE_MOV_R64_RM64, m]"
| "win64_stack_load_switch _ rex m = None"

text \<open>Lines 1315-1320: \<^verbatim>\<open>mov r10, [r13 + i * sizeof(FFI_Argument)]\<close>.\<close>

definition win64_load_value_ptr :: "nat \<Rightarrow> byte list" where
  "win64_load_value_ptr i =
     [REX_WR_PREFIX OR REX_B_BIT, OPCODE_MOV_R64_RM64,
      modrm MOD_DISP8 MODRM_REG_R10_CODE MODRM_REG_R13_CODE, of_nat (i * 8)]"

text \<open>
  The \<^verbatim>\<open>if (to_stack)\<close> block (lines 1443-1550); stack arguments lie above the shadow
  space. \<open>None\<close> is the \<^verbatim>\<open>default: return 0\<close> of its type switch, before which the block
  has written nothing.
\<close>

definition win64_spill_arg ::
  "FFI_Type \<Rightarrow> marshal_idx \<Rightarrow> (byte list \<times> marshal_idx) option" where
  "win64_spill_arg param_type c =
     (let k = stack_arg_current_idx c;
          stack_offset_from_rsp_base = 32 + k * 8
      in
      if is_int128_type param_type then
        Some ([REX_WR_PREFIX OR REX_B_BIT, OPCODE_MOV_R64_RM64,
               modrm MOD_INDIRECT MODRM_REG_R11_CODE MODRM_REG_R10_CODE,
               REX_PUSH_POP_R12_PREFIX OR REX_W_PREFIX OR REX_R_BIT, OPCODE_MOV_R64_RM64,
               modrm MOD_DISP8 MODRM_REG_R12_CODE MODRM_REG_R10_CODE, 0x08,
               REX_W_PREFIX OR REX_R_BIT, OPCODE_MOV_RM64_R64,
               modrm MOD_DISP8 MODRM_REG_R11_CODE RM_SIB_BYTE_FOLLOWS, SIB_BYTE_RSP,
               of_nat stack_offset_from_rsp_base,
               REX_W_PREFIX OR REX_R_BIT, OPCODE_MOV_RM64_R64,
               modrm MOD_DISP8 MODRM_REG_R12_CODE RM_SIB_BYTE_FOLLOWS, SIB_BYTE_RSP,
               of_nat (stack_offset_from_rsp_base + 8)],
              c\<lparr>stack_arg_current_idx := k + 2\<rparr>)
      else if is_xmm_type param_type then
        (let xmm_prefix = (if param_type = FFI_TYPE_FLOAT then PREFIX_MOVSS else PREFIX_MOVSD) in
         Some ([xmm_prefix, REX_BASE_0x40_BIT OR REX_R_BIT OR REX_B_BIT, 0x0F, OPCODE_XMM_MOV_XMM_RM,
                modrm MOD_INDIRECT MODRM_REG_XMM7_CODE MODRM_REG_R10_CODE,
                xmm_prefix, REX_BASE_0x40_BIT OR REX_R_BIT, 0x0F, OPCODE_XMM_MOV_RM_XMM,
                modrm MOD_DISP8 MODRM_REG_XMM7_CODE RM_SIB_BYTE_FOLLOWS, SIB_BYTE_RSP,
                of_nat stack_offset_from_rsp_base],
               c\<lparr>stack_arg_current_idx := k + 1\<rparr>))
      else
        (let load_rex_prefix = REX_BASE_0x40_BIT OR REX_B_BIT OR REX_R_BIT;
             load_modrm = modrm MOD_INDIRECT MODRM_REG_R11_CODE MODRM_REG_R10_CODE
         in case win64_stack_load_switch param_type load_rex_prefix load_modrm of
              None \<Rightarrow> None
            | Some load \<Rightarrow>
                (let store_modrm_mod =
                       (if stack_offset_from_rsp_base = 0 then MOD_INDIRECT else MOD_DISP8)
                 in Some (load
                          @ [REX_W_PREFIX OR REX_R_BIT, OPCODE_MOV_RM64_R64,
                             modrm store_modrm_mod MODRM_REG_R11_CODE RM_SIB_BYTE_FOLLOWS,
                             SIB_BYTE_RSP]
                          @ (if stack_offset_from_rsp_base \<noteq> 0
                             then [of_nat stack_offset_from_rsp_base] else []),
                          c\<lparr>stack_arg_current_idx := k + 1\<rparr>))))"

text \<open>
  One iteration of the marshalling loop (lines 1312-1551): the bytes it writes and the
  indices after it (\<open>None\<close> when it ends in \<^verbatim>\<open>return 0\<close>). The 128-bit branch tests
  \<^verbatim>\<open>num_gp_regs_used\<close>, the final count of the first loop (line 1345), where the other
  branches test the running \<^verbatim>\<open>gp_reg_idx\<close>.
\<close>

definition win64_marshal_arg ::
  "nat \<Rightarrow> nat \<Rightarrow> FFI_Type \<Rightarrow> marshal_idx \<Rightarrow> byte list \<times> marshal_idx option" where
  "win64_marshal_arg num_gp_regs_used i param_type c =
     (let g = gp_reg_idx c; x = xmm_reg_idx c in
      case
       (if is_xmm_type param_type then
          (if x < 4 then
             (let xmm_prefix = (if param_type = FFI_TYPE_FLOAT then PREFIX_MOVSS else PREFIX_MOVSD);
                  xmm_rex_prefix = (REX_BASE_0x40_BIT OR REX_B_BIT)
                                   OR (if x \<ge> 4 then REX_R_BIT else 0)
              in Some ([xmm_prefix, xmm_rex_prefix, 0x0F, OPCODE_XMM_MOV_XMM_RM,
                        modrm MOD_INDIRECT (MODRM_REG_XMM0_CODE + of_nat x) MODRM_REG_R10_CODE],
                       c\<lparr>xmm_reg_idx := x + 1\<rparr>))
           else win64_spill_arg param_type c)
        else if is_int128_type param_type then
          (if num_gp_regs_used \<le> 2 then
             (let dest_reg_low = win64_gp_arg_regs ! g;
                  needs_rex_r_low = win64_gp_arg_regs_needs_rex_r ! g;
                  rex_prefix_low = (REX_W_PREFIX OR REX_B_BIT)
                                   OR (if needs_rex_r_low then REX_R_BIT else 0);
                  dest_reg_high = win64_gp_arg_regs ! (g + 1);
                  needs_rex_r_high = win64_gp_arg_regs_needs_rex_r ! (g + 1);
                  rex_prefix_high = (REX_W_PREFIX OR REX_B_BIT)
                                    OR (if needs_rex_r_high then REX_R_BIT else 0)
              in Some ([rex_prefix_low, OPCODE_MOV_R64_RM64,
                        modrm MOD_INDIRECT dest_reg_low MODRM_REG_R10_CODE,
                        rex_prefix_high, OPCODE_MOV_R64_RM64,
                        modrm MOD_DISP8 dest_reg_high MODRM_REG_R10_CODE, 0x08],
                       c\<lparr>gp_reg_idx := g + 2\<rparr>))
           else win64_spill_arg param_type c)
        else
          (if g < 4 then
             (let dest_reg_code = win64_gp_arg_regs ! g;
                  use_rex_r_for_dest_reg = win64_gp_arg_regs_needs_rex_r ! g;
                  modrm_byte = modrm MOD_INDIRECT dest_reg_code MODRM_REG_R10_CODE;
                  final_rex_prefix = (REX_BASE_0x40_BIT OR REX_B_BIT)
                                     OR (if use_rex_r_for_dest_reg then REX_R_BIT else 0)
              in map_option (\<lambda>bs. (bs, c\<lparr>gp_reg_idx := g + 1\<rparr>))
                   (win64_reg_load_switch param_type final_rex_prefix modrm_byte))
           else win64_spill_arg param_type c))
      of
        None \<Rightarrow> (win64_load_value_ptr i, None)
      | Some (bs, c') \<Rightarrow> (win64_load_value_ptr i @ bs, Some c'))"

fun win64_marshal_args ::
  "nat \<Rightarrow> nat \<Rightarrow> FFI_Type list \<Rightarrow> marshal_idx \<Rightarrow> byte list \<times> bool" where
  "win64_marshal_args n i [] c = ([], True)"
| "win64_marshal_args n i (param_type # ts) c =
     (case win64_marshal_arg n i param_type c of
        (bs, None) \<Rightarrow> (bs, False)
      | (bs, Some c') \<Rightarrow>
          (case win64_marshal_args n (Suc i) ts c' of (bs', finished) \<Rightarrow> (bs @ bs', finished)))"

text \<open>
  Lines 1302-1309: with a 128-bit return type, \<^verbatim>\<open>mov rcx, r14\<close> passes the return buffer
  as the first argument and the marshalling starts at \<^verbatim>\<open>gp_reg_idx = 1\<close>.
\<close>

definition win64_pass_return_pointer :: "FFI_FunctionSignature \<Rightarrow> byte list \<times> marshal_idx" where
  "win64_pass_return_pointer sig =
     (if win64_return_struct_by_pointer sig
      then ([REX_WB_PREFIX, OPCODE_MOV_RM64_R64, modrm MOD_REGISTER MODRM_REG_R14_CODE MODRM_REG_RCX],
            idx0\<lparr>gp_reg_idx := 1\<rparr>)
      else ([], idx0))"

text \<open>
  Lines 1553-1565: \<^verbatim>\<open>movabs rax, func_ptr; call rax\<close>. \<^verbatim>\<open>target_addr_val\<close> is a \<^verbatim>\<open>long\<close>,
  32 bits wide on this host (LLP64): the cast keeps the low 32 bits of the address,
  and \<^verbatim>\<open>memcpy(current_code_ptr, &target_addr_val, 8)\<close> copies them together with the
  four bytes that follow the variable in the generator's stack frame. \<open>frame\<close> stands
  for those four bytes, which the program does not determine.
\<close>

definition win64_call_target :: "32 word \<Rightarrow> FFI_FunctionSignature \<Rightarrow> byte list" where
  "win64_call_target frame sig =
     (let target_addr_val = (ucast (func_ptr sig) :: 32 word)
      in [REX_W_PREFIX, OPCODE_MOV_IMM64_RAX] @ le_bytes32 target_addr_val @ le_bytes32 frame
         @ [OPCODE_CALL_RM64, modrm MOD_REGISTER 0x02 MODRM_REG_RAX])"

text \<open>Lines 1567-1644: store the return value through R14.\<close>

fun win64_store_switch :: "FFI_Type \<Rightarrow> byte list option" where
  "win64_store_switch FFI_TYPE_BOOL =
     Some [REX_B_PREFIX_32BIT_OP, 0x88, modrm MOD_INDIRECT MODRM_REG_RAX RM_SIB_BYTE_FOLLOWS, SIB_BYTE_R14_BASE]"
| "win64_store_switch FFI_TYPE_CHAR =
     Some [REX_B_PREFIX_32BIT_OP, 0x88, modrm MOD_INDIRECT MODRM_REG_RAX RM_SIB_BYTE_FOLLOWS, SIB_BYTE_R14_BASE]"
| "win64_store_switch FFI_TYPE_UCHAR =
     Some [REX_B_PREFIX_32BIT_OP, 0x88, modrm MOD_INDIRECT MODRM_REG_RAX RM_SIB_BYTE_FOLLOWS, SIB_BYTE_R14_BASE]"
| "win64_store_switch FFI_TYPE_SCHAR =
     Some [REX_B_PREFIX_32BIT_OP, 0x88, modrm MOD_INDIRECT MODRM_REG_RAX RM_SIB_BYTE_FOLLOWS, SIB_BYTE_R14_BASE]"
| "win64_store_switch FFI_TYPE_SHORT =
     Some [0x66, REX_B_PREFIX_32BIT_OP, 0x89, modrm MOD_INDIRECT MODRM_REG_RAX RM_SIB_BYTE_FOLLOWS, SIB_BYTE_R14_BASE]"
| "win64_store_switch FFI_TYPE_USHORT =
     Some [0x66, REX_B_PREFIX_32BIT_OP, 0x89, modrm MOD_INDIRECT MODRM_REG_RAX RM_SIB_BYTE_FOLLOWS, SIB_BYTE_R14_BASE]"
| "win64_store_switch FFI_TYPE_SSHORT =
     Some [0x66, REX_B_PREFIX_32BIT_OP, 0x89, modrm MOD_INDIRECT MODRM_REG_RAX RM_SIB_BYTE_FOLLOWS, SIB_BYTE_R14_BASE]"
| "win64_store_switch FFI_TYPE_WCHAR =
     Some [0x66, REX_B_PREFIX_32BIT_OP, 0x89, modrm MOD_INDIRECT MODRM_REG_RAX RM_SIB_BYTE_FOLLOWS, SIB_BYTE_R14_BASE]"
| "win64_store_switch FFI_TYPE_INT =
     Some [REX_B_PREFIX_32BIT_OP, OPCODE_MOV_RM64_R64, modrm MOD_INDIRECT MODRM_REG_RAX RM_SIB_BYTE_FOLLOWS, SIB_BYTE_R14_BASE]"
| "win64_store_switch FFI_TYPE_UINT =
     Some [REX_B_PREFIX_32BIT_OP, OPCODE_MOV_RM64_R64, modrm MOD_INDIRECT MODRM_REG_RAX RM_SIB_BYTE_FOLLOWS, SIB_BYTE_R14_BASE]"
| "win64_store_switch FFI_TYPE_SINT =
     Some [REX_B_PREFIX_32BIT_OP, OPCODE_MOV_RM64_R64, modrm MOD_INDIRECT MODRM_REG_RAX RM_SIB_BYTE_FOLLOWS, SIB_BYTE_R14_BASE]"
| "win64_store_switch FFI_TYPE_LONG =
     Some [REX_B_PREFIX_32BIT_OP, OPCODE_MOV_RM64_R64, modrm MOD_INDIRECT MODRM_REG_RAX RM_SIB_BYTE_FOLLOWS, SIB_BYTE_R14_BASE]"
| "win64_store_switch FFI_TYPE_ULONG =
     Some [REX_B_PREFIX_32BIT_OP, OPCODE_MOV_RM64_R64, modrm MOD_INDIRECT MODRM_REG_RAX RM_SIB_BYTE_FOLLOWS, SIB_BYTE_R14_BASE]"
| "win64_store_switch FFI_TYPE_SLONG =
     Some [REX_B_PREFIX_32BIT_OP, OPCODE_MOV_RM64_R64, modrm MOD_INDIRECT MODRM_REG_RAX RM_SIB_BYTE_FOLLOWS, SIB_BYTE_R14_BASE]"
| "win64_store_switch FFI_TYPE_LLONG =
     Some [REX_WB_PREFIX, OPCODE_MOV_RM64_R64, modrm MOD_INDIRECT MODRM_REG_RAX RM_SIB_BYTE_FOLLOWS, SIB_BYTE_R14_BASE]"
| "win64_store_switch FFI_TYPE_ULLONG =
     Some [REX_WB_PREFIX, OPCODE_MOV_RM64_R64, modrm MOD_INDIRECT MODRM_REG_RAX RM_SIB_BYTE_FOLLOWS, SIB_BYTE_R14_BASE]"
| "win64_store_switch FFI_TYPE_POINTER =
     Some [REX_WB_PREFIX, OPCODE_MOV_RM64_R64, modrm MOD_INDIRECT MODRM_REG_RAX RM_SIB_BYTE_FOLLOWS, SIB_BYTE_R14_BASE]"
| "win64_store_switch FFI_TYPE_SIZE_T =
     Some [REX_WB_PREFIX, OPCODE_MOV_RM64_R64, modrm MOD_INDIRECT MODRM_REG_RAX RM_SIB_BYTE_FOLLOWS, SIB_BYTE_R14_BASE]"
| "win64_store_switch FFI_TYPE_SLLONG =
     Some [REX_WB_PREFIX, OPCODE_MOV_RM64_R64, modrm MOD_INDIRECT MODRM_REG_RAX RM_SIB_BYTE_FOLLOWS, SIB_BYTE_R14_BASE]"
| "win64_store_switch FFI_TYPE_FLOAT =
     Some [PREFIX_MOVSS, REX_BASE_0x40_BIT OR REX_B_BIT, 0x0F, OPCODE_XMM_MOV_RM_XMM,
           modrm MOD_INDIRECT MODRM_REG_XMM0_CODE RM_SIB_BYTE_FOLLOWS, SIB_BYTE_R14_BASE]"
| "win64_store_switch FFI_TYPE_DOUBLE =
     Some [PREFIX_MOVSD, REX_BASE_0x40_BIT OR REX_B_BIT, 0x0F, OPCODE_XMM_MOV_RM_XMM,
           modrm MOD_INDIRECT MODRM_REG_XMM0_CODE RM_SIB_BYTE_FOLLOWS, SIB_BYTE_R14_BASE]"
| "win64_store_switch _ = None"

definition win64_store_return :: "FFI_FunctionSignature \<Rightarrow> byte list option" where
  "win64_store_return sig =
     (if return_type sig \<noteq> FFI_TYPE_VOID then
        (if win64_return_struct_by_pointer sig then Some []
         else win64_store_switch (return_type sig))
      else Some [])"

text \<open>Lines 1646-1667: \<^verbatim>\<open>add rsp, imm8; pop r14; pop r13; pop rbp; ret\<close>.\<close>

definition win64_epilogue :: "FFI_FunctionSignature \<Rightarrow> byte list" where
  "win64_epilogue sig =
     (let total_stack_alloc = win64_total_stack_alloc sig
      in (if total_stack_alloc > 0
          then [REX_W_PREFIX, OPCODE_ADD_IMM8_RSP, modrm MOD_REGISTER 0x00 MODRM_REG_RSP,
                of_nat total_stack_alloc]
          else [])
         @ [REX_PUSH_POP_R14_PREFIX, OPCODE_POP_R14_BYTE,
            REX_PUSH_POP_R13_PREFIX, OPCODE_POP_R13_BYTE,
            OPCODE_POP_RBP,
            OPCODE_RET])"

text \<open>
  \<^verbatim>\<open>generate_x86_64_win64_trampoline\<close>: the bytes written to \<^verbatim>\<open>code_buffer\<close> and the
  size returned.
\<close>

definition generate_x86_64_win64_trampoline :: "32 word \<Rightarrow> FFI_FunctionSignature \<Rightarrow> emitted" where
  "generate_x86_64_win64_trampoline frame sig =
     (case win64_pass_return_pointer sig of
        (pass, c0) \<Rightarrow>
          (case win64_marshal_args (win64_num_gp_regs_used sig) 0 (param_types sig) c0 of
             (marshalling, finished) \<Rightarrow>
               (let written = win64_prologue @ win64_reserve_stack sig @ pass @ marshalling
                in if finished then
                     (case win64_store_return sig of
                        None \<Rightarrow> (written @ win64_call_target frame sig, 0)
                      | Some store \<Rightarrow>
                          (let code = written @ win64_call_target frame sig @ store
                                      @ win64_epilogue sig
                           in (code, length code)))
                   else (written, 0))))"


section \<open>AArch64 AAPCS generator (cross.c, lines 1682-2040)\<close>

abbreviation (input) ARM64_REG_X0 :: "32 word" where "ARM64_REG_X0 \<equiv> 0"
abbreviation (input) ARM64_REG_X1 :: "32 word" where "ARM64_REG_X1 \<equiv> 1"
abbreviation (input) ARM64_REG_X8 :: "32 word" where "ARM64_REG_X8 \<equiv> 8"
abbreviation (input) ARM64_REG_SP :: "32 word" where "ARM64_REG_SP \<equiv> 31"
abbreviation (input) ARM64_REG_V0 :: "32 word" where "ARM64_REG_V0 \<equiv> 0"

text \<open>
  Modelled from the spec: the generator uses the macros \<^verbatim>\<open>ARM64_REG_X9\<close>,
  \<^verbatim>\<open>ARM64_REG_X10\<close>, \<^verbatim>\<open>ARM64_REG_X16\<close>, \<^verbatim>\<open>ARM64_REG_X19\<close>, \<^verbatim>\<open>ARM64_REG_X20\<close> and
  \<^verbatim>\<open>ARM64_REG_V8\<close>, which the source does not define. They are given the register
  numbers their names say (the spec: "X16 or similar scratch used to hold the call
  target", "callee-saved slots" for the argument base and the return slot).
\<close>

definition ARM64_REG_X9 :: "32 word" where "ARM64_REG_X9 = 9"
definition ARM64_REG_X10 :: "32 word" where "ARM64_REG_X10 = 10"
definition ARM64_REG_X16 :: "32 word" where "ARM64_REG_X16 = 16"
definition ARM64_REG_X19 :: "32 word" where "ARM64_REG_X19 = 19"
definition ARM64_REG_X20 :: "32 word" where "ARM64_REG_X20 = 20"
definition ARM64_REG_V8 :: "32 word" where "ARM64_REG_V8 = 8"

text \<open>The macros \<^verbatim>\<open>ARM64_LDR_X_X_IMM\<close>, \<^verbatim>\<open>ARM64_STR_X_X_IMM\<close>, \<^verbatim>\<open>ARM64_BLR\<close>, \<^verbatim>\<open>ARM64_RET\<close>.\<close>

definition ARM64_LDR_X_X_IMM :: "32 word \<Rightarrow> 32 word \<Rightarrow> nat \<Rightarrow> 32 word" where
  "ARM64_LDR_X_X_IMM Xd Xn offset =
     0xF8400000 OR push_bit 10 (of_nat offset AND 0xFFF) OR push_bit 5 (Xn AND 0x1F) OR (Xd AND 0x1F)"

definition ARM64_STR_X_X_IMM :: "32 word \<Rightarrow> 32 word \<Rightarrow> nat \<Rightarrow> 32 word" where
  "ARM64_STR_X_X_IMM Xd Xn offset =
     0xF8000000 OR push_bit 10 (of_nat offset AND 0xFFF) OR push_bit 5 (Xn AND 0x1F) OR (Xd AND 0x1F)"

definition ARM64_BLR :: "32 word \<Rightarrow> 32 word" where
  "ARM64_BLR Xn = 0xD63F0000 OR push_bit 5 (Xn AND 0x1F)"

abbreviation (input) ARM64_RET :: "32 word" where "ARM64_RET \<equiv> 0xD65F03C0"

text \<open>Prologue (lines 1693-1712): five fixed instruction words.\<close>

definition arm64_prologue :: "32 word list" where
  "arm64_prologue = [0xA9BF7BFD, 0xF90003BD, 0xA9BF4FF3, 0xAA0003F3, 0xAA0203F4]"

text \<open>First loop (lines 1732-1754).\<close>

fun arm64_count_args :: "FFI_Type list \<Rightarrow> nat \<times> nat \<times> nat \<Rightarrow> nat \<times> nat \<times> nat" where
  "arm64_count_args [] c = c"
| "arm64_count_args (param_type # ts) (num_gp_regs_used, num_xmm_regs_used, num_stack_args) =
     arm64_count_args ts
       (if param_type = FFI_TYPE_FLOAT \<or> param_type = FFI_TYPE_DOUBLE then
          (if num_xmm_regs_used < 8
           then (num_gp_regs_used, num_xmm_regs_used + 1, num_stack_args)
           else (num_gp_regs_used, num_xmm_regs_used, num_stack_args + 1))
        else if param_type = FFI_TYPE_INT128 \<or> param_type = FFI_TYPE_UINT128 then
          (if num_gp_regs_used \<le> 6
           then (num_gp_regs_used + 2, num_xmm_regs_used, num_stack_args)
           else (num_gp_regs_used, num_xmm_regs_used, num_stack_args + 2))
        else
          (if num_gp_regs_used < 8
           then (num_gp_regs_used + 1, num_xmm_regs_used, num_stack_args)
           else (num_gp_regs_used, num_xmm_regs_used, num_stack_args + 1)))"

definition arm64_num_stack_args :: "FFI_FunctionSignature \<Rightarrow> nat" where
  "arm64_num_stack_args sig = snd (snd (arm64_count_args (param_types sig) (0, 0, 0)))"

text \<open>Lines 1756-1765.\<close>

definition arm64_final_stack_subtraction :: "FFI_FunctionSignature \<Rightarrow> nat" where
  "arm64_final_stack_subtraction sig =
     (let stack_args_total_size = arm64_num_stack_args sig * 8;
          final_stack_subtraction = stack_args_total_size
      in if final_stack_subtraction mod 16 \<noteq> 0
         then final_stack_subtraction + 8 else final_stack_subtraction)"

text \<open>Lines 1767-1770: \<^verbatim>\<open>sub sp, sp, #imm12\<close>.\<close>

definition arm64_reserve_stack :: "FFI_FunctionSignature \<Rightarrow> 32 word list" where
  "arm64_reserve_stack sig =
     (let final_stack_subtraction = arm64_final_stack_subtraction sig
      in if final_stack_subtraction > 0
         then [0xD1000000 OR push_bit 10 (of_nat final_stack_subtraction AND 0xFFF)
               OR push_bit 5 ARM64_REG_SP OR ARM64_REG_SP]
         else [])"

definition arm64_gp_arg_regs :: "32 word list" where
  "arm64_gp_arg_regs = [0, 1, 2, 3, 4, 5, 6, 7]"

definition arm64_fp_arg_regs :: "32 word list" where
  "arm64_fp_arg_regs = [0, 1, 2, 3, 4, 5, 6, 7]"

text \<open>The type switch of the register branch (lines 1834-1874).\<close>

fun arm64_reg_load_switch :: "FFI_Type \<Rightarrow> 32 word \<Rightarrow> 32 word option" where
  "arm64_reg_load_switch FFI_TYPE_BOOL dest_reg = Some (0x38400100 OR dest_reg OR push_bit 5 ARM64_REG_X8)"
| "arm64_reg_load_switch FFI_TYPE_CHAR dest_reg = Some (0x38400100 OR dest_reg OR push_bit 5 ARM64_REG_X8)"
| "arm64_reg_load_switch FFI_TYPE_UCHAR dest_reg = Some (0x38400100 OR dest_reg OR push_bit 5 ARM64_REG_X8)"
| "arm64_reg_load_switch FFI_TYPE_SCHAR dest_reg = Some (0x38C00100 OR dest_reg OR push_bit 5 ARM64_REG_X8)"
| "arm64_reg_load_switch FFI_TYPE_SHORT dest_reg = Some (0x78C00100 OR dest_reg OR push_bit 5 ARM64_REG_X8)"
| "arm64_reg_load_switch FFI_TYPE_USHORT dest_reg = Some (0x78400100 OR dest_reg OR push_bit 5 ARM64_REG_X8)"
| "arm64_reg_load_switch FFI_TYPE_WCHAR dest_reg = Some (0x78400100 OR dest_reg OR push_bit 5 ARM64_REG_X8)"
| "arm64_reg_load_switch FFI_TYPE_SSHORT dest_reg = Some (0x78C00100 OR dest_reg OR push_bit 5 ARM64_REG_X8)"
| "arm64_reg_load_switch FFI_TYPE_INT dest_reg = Some (ARM64_LDR_X_X_IMM dest_reg ARM64_REG_X8 0)"
| "arm64_reg_load_switch FFI_TYPE_UINT dest_reg = Some (ARM64_LDR_X_X_IMM dest_reg ARM64_REG_X8 0)"
| "arm64_reg_load_switch FFI_TYPE_SINT dest_reg = Some (ARM64_LDR_X_X_IMM dest_reg ARM64_REG_X8 0)"
| "arm64_reg_load_switch FFI_TYPE_LONG dest_reg = Some (ARM64_LDR_X_X_IMM dest_reg ARM64_REG_X8 0)"
| "arm64_reg_load_switch FFI_TYPE_ULONG dest_reg = Some (ARM64_LDR_X_X_IMM dest_reg ARM64_REG_X8 0)"
| "arm64_reg_load_switch FFI_TYPE_LLONG dest_reg = Some (ARM64_LDR_X_X_IMM dest_reg ARM64_REG_X8 0)"
| "arm64_reg_load_switch FFI_TYPE_ULLONG dest_reg = Some (ARM64_LDR_X_X_IMM dest_reg ARM64_REG_X8 0)"
| "arm64_reg_load_switch FFI_TYPE_POINTER dest_reg = Some (ARM64_LDR_X_X_IMM dest_reg ARM64_REG_X8 0)"
| "arm64_reg_load_switch FFI_TYPE_SIZE_T dest_reg = Some (ARM64_LDR_X_X_IMM dest_reg ARM64_REG_X8 0)"
| "arm64_reg_load_switch FFI_TYPE_SLONG dest_reg = Some (ARM64_LDR_X_X_IMM dest_reg ARM64_REG_X8 0)"
| "arm64_reg_load_switch FFI_TYPE_SLLONG dest_reg = Some (ARM64_LDR_X_X_IMM dest_reg ARM64_REG_X8 0)"
| "arm64_reg_load_switch _ dest_reg = None"

text \<open>
  The \<^verbatim>\<open>if (to_stack)\<close> block (lines 1881-1919). Its last branch ("GPR types to stack")
  has no type switch: every remaining type is copied with a 64-bit load and store.
\<close>

definition arm64_spill_arg ::
  "FFI_Type \<Rightarrow> marshal_idx \<Rightarrow> 32 word list \<times> marshal_idx" where
  "arm64_spill_arg param_type c =
     (let k = stack_arg_current_idx c;
          stack_offset_from_sp = k * 8
      in
      if is_int128_type param_type then
        ([ARM64_LDR_X_X_IMM ARM64_REG_X9 ARM64_REG_X8 0,
          ARM64_LDR_X_X_IMM ARM64_REG_X10 ARM64_REG_X8 8,
          ARM64_STR_X_X_IMM ARM64_REG_X9 ARM64_REG_SP stack_offset_from_sp,
          ARM64_STR_X_X_IMM ARM64_REG_X10 ARM64_REG_SP (stack_offset_from_sp + 8)],
         c\<lparr>stack_arg_current_idx := k + 2\<rparr>)
      else if is_xmm_type param_type then
        ((if param_type = FFI_TYPE_FLOAT
          then [0xBC400100 OR ARM64_REG_V8 OR push_bit 5 ARM64_REG_X8,
                0xBC000100 OR ARM64_REG_V8 OR push_bit 5 ARM64_REG_SP
                  OR push_bit 10 (of_nat (stack_offset_from_sp div 4))]
          else [0xBC800100 OR ARM64_REG_V8 OR push_bit 5 ARM64_REG_X8,
                0xBC200100 OR ARM64_REG_V8 OR push_bit 5 ARM64_REG_SP
                  OR push_bit 10 (of_nat (stack_offset_from_sp div 8))]),
         c\<lparr>stack_arg_current_idx := k + 1\<rparr>)
      else
        ([ARM64_LDR_X_X_IMM ARM64_REG_X9 ARM64_REG_X8 0,
          ARM64_STR_X_X_IMM ARM64_REG_X9 ARM64_REG_SP stack_offset_from_sp],
         c\<lparr>stack_arg_current_idx := k + 1\<rparr>))"

text \<open>
  One iteration of the marshalling loop (lines 1791-1920): the words it writes and the
  indices after it (\<open>None\<close> when it ends in \<^verbatim>\<open>return 0\<close>, after the load of
  \<^verbatim>\<open>args[i].value_ptr\<close>).
\<close>

definition arm64_marshal_arg ::
  "nat \<Rightarrow> FFI_Type \<Rightarrow> marshal_idx \<Rightarrow> 32 word list \<times> marshal_idx option" where
  "arm64_marshal_arg i param_type c =
     (let g = gp_reg_idx c; x = xmm_reg_idx c;
          load_value_ptr = ARM64_LDR_X_X_IMM ARM64_REG_X8 ARM64_REG_X19 (i * 8)
      in
      case
       (if is_xmm_type param_type then
          (if x < 8 then
             Some ([(if param_type = FFI_TYPE_FLOAT then 0xBC400100 else 0xBC800100)
                    OR (arm64_fp_arg_regs ! x) OR push_bit 5 ARM64_REG_X8],
                   c\<lparr>xmm_reg_idx := x + 1\<rparr>)
           else Some (arm64_spill_arg param_type c))
        else if is_int128_type param_type then
          (if g \<le> 6 then
             Some ([ARM64_LDR_X_X_IMM (arm64_gp_arg_regs ! g) ARM64_REG_X8 0,
                    ARM64_LDR_X_X_IMM (arm64_gp_arg_regs ! (g + 1)) ARM64_REG_X8 8],
                   c\<lparr>gp_reg_idx := g + 2\<rparr>)
           else Some (arm64_spill_arg param_type c))
        else
          (if g < 8 then
             map_option (\<lambda>w. ([w], c\<lparr>gp_reg_idx := g + 1\<rparr>))
               (arm64_reg_load_switch param_type (arm64_gp_arg_regs ! g))
           else Some (arm64_spill_arg param_type c)))
      of
        None \<Rightarrow> ([load_value_ptr], None)
      | Some (ws, c') \<Rightarrow> (load_value_ptr # ws, Some c'))"

fun arm64_marshal_args :: "nat \<Rightarrow> FFI_Type list \<Rightarrow> marshal_idx \<Rightarrow> 32 word list \<times> bool" where
  "arm64_marshal_args i [] c = ([], True)"
| "arm64_marshal_args i (param_type # ts) c =
     (case arm64_marshal_arg i param_type c of
        (ws, None) \<Rightarrow> (ws, False)
      | (ws, Some c') \<Rightarrow>
          (case arm64_marshal_args (Suc i) ts c' of (ws', finished) \<Rightarrow> (ws @ ws', finished)))"

text \<open>Lines 1945-1960: \<^verbatim>\<open>movz/movk x16, func_ptr; blr x16\<close>.\<close>

definition arm64_call_target :: "FFI_FunctionSignature \<Rightarrow> 32 word list" where
  "arm64_call_target sig =
     (let target_addr_val = func_ptr sig in
      [0xD2800000 OR push_bit 5 (ucast (target_addr_val AND 0xFFFF)) OR ARM64_REG_X16,
       0xF2800000 OR push_bit 5 (ucast (drop_bit 16 target_addr_val AND 0xFFFF))
         OR push_bit 21 1 OR ARM64_REG_X16,
       0xF2800000 OR push_bit 5 (ucast (drop_bit 32 target_addr_val AND 0xFFFF))
         OR push_bit 21 2 OR ARM64_REG_X16,
       0xF2800000 OR push_bit 5 (ucast (drop_bit 48 target_addr_val AND 0xFFFF))
         OR push_bit 21 3 OR ARM64_REG_X16,
       ARM64_BLR ARM64_REG_X16])"

text \<open>
  Lines 1962-2020: store the return value through X20 (\<^verbatim>\<open>return_struct_by_pointer\<close>
  is never set in this generator).
\<close>

fun arm64_store_return :: "FFI_Type \<Rightarrow> 32 word list option" where
  "arm64_store_return FFI_TYPE_VOID = Some []"
| "arm64_store_return FFI_TYPE_BOOL = Some [0x38000000 OR ARM64_REG_X0 OR push_bit 5 ARM64_REG_X20]"
| "arm64_store_return FFI_TYPE_CHAR = Some [0x38000000 OR ARM64_REG_X0 OR push_bit 5 ARM64_REG_X20]"
| "arm64_store_return FFI_TYPE_UCHAR = Some [0x38000000 OR ARM64_REG_X0 OR push_bit 5 ARM64_REG_X20]"
| "arm64_store_return FFI_TYPE_SCHAR = Some [0x38000000 OR ARM64_REG_X0 OR push_bit 5 ARM64_REG_X20]"
| "arm64_store_return FFI_TYPE_SHORT = Some [0x78000000 OR ARM64_REG_X0 OR push_bit 5 ARM64_REG_X20]"
| "arm64_store_return FFI_TYPE_USHORT = Some [0x78000000 OR ARM64_REG_X0 OR push_bit 5 ARM64_REG_X20]"
| "arm64_store_return FFI_TYPE_SSHORT = Some [0x78000000 OR ARM64_REG_X0 OR push_bit 5 ARM64_REG_X20]"
| "arm64_store_return FFI_TYPE_WCHAR = Some [0x78000000 OR ARM64_REG_X0 OR push_bit 5 ARM64_REG_X20]"
| "arm64_store_return FFI_TYPE_INT = Some [0xB8000000 OR ARM64_REG_X0 OR push_bit 5 ARM64_REG_X20]"
| "arm64_store_return FFI_TYPE_UINT = Some [0xB8000000 OR ARM64_REG_X0 OR push_bit 5 ARM64_REG_X20]"
| "arm64_store_return FFI_TYPE_SINT = Some [0xB8000000 OR ARM64_REG_X0 OR push_bit 5 ARM64_REG_X20]"
| "arm64_store_return FFI_TYPE_LONG = Some [0xB8000000 OR ARM64_REG_X0 OR push_bit 5 ARM64_REG_X20]"
| "arm64_store_return FFI_TYPE_ULONG = Some [0xB8000000 OR ARM64_REG_X0 OR push_bit 5 ARM64_REG_X20]"
| "arm64_store_return FFI_TYPE_SLONG = Some [0xB8000000 OR ARM64_REG_X0 OR push_bit 5 ARM64_REG_X20]"
| "arm64_store_return FFI_TYPE_LLONG = Some [ARM64_STR_X_X_IMM ARM64_REG_X0 ARM64_REG_X20 0]"
| "arm64_store_return FFI_TYPE_ULLONG = Some [ARM64_STR_X_X_IMM ARM64_REG_X0 ARM64_REG_X20 0]"
| "arm64_store_return FFI_TYPE_POINTER = Some [ARM64_STR_X_X_IMM ARM64_REG_X0 ARM64_REG_X20 0]"
| "arm64_store_return FFI_TYPE_SIZE_T = Some [ARM64_STR_X_X_IMM ARM64_REG_X0 ARM64_REG_X20 0]"
| "arm64_store_return FFI_TYPE_SLLONG = Some [ARM64_STR_X_X_IMM ARM64_REG_X0 ARM64_REG_X20 0]"
| "arm64_store_return FFI_TYPE_FLOAT = Some [0xBC000000 OR ARM64_REG_V0 OR push_bit 5 ARM64_REG_X20]"
| "arm64_store_return FFI_TYPE_DOUBLE = Some [0xBC200000 OR ARM64_REG_V0 OR push_bit 5 ARM64_REG_X20]"
| "arm64_store_return FFI_TYPE_INT128 =
     Some [ARM64_STR_X_X_IMM ARM64_REG_X0 ARM64_REG_X20 0, ARM64_STR_X_X_IMM ARM64_REG_X1 ARM64_REG_X20 8]"
| "arm64_store_return FFI_TYPE_UINT128 =
     Some [ARM64_STR_X_X_IMM ARM64_REG_X0 ARM64_REG_X20 0, ARM64_STR_X_X_IMM ARM64_REG_X1 ARM64_REG_X20 8]"
| "arm64_store_return FFI_TYPE_UNKNOWN = None"

text \<open>Lines 2022-2037.\<close>

definition arm64_epilogue :: "FFI_FunctionSignature \<Rightarrow> 32 word list" where
  "arm64_epilogue sig =
     (let final_stack_subtraction = arm64_final_stack_subtraction sig
      in (if final_stack_subtraction > 0
          then [0x91000000 OR push_bit 10 (of_nat final_stack_subtraction AND 0xFFF)
                OR push_bit 5 ARM64_REG_SP OR ARM64_REG_SP]
          else [])
         @ [0xA8C14FF3, 0xA8C17BFD, ARM64_RET])"

text \<open>
  \<^verbatim>\<open>generate_arm64_aapcs_trampoline\<close>: the bytes written to \<^verbatim>\<open>code_buffer\<close> (four per
  instruction word) and the size returned.
\<close>

definition generate_arm64_aapcs_trampoline :: "FFI_FunctionSignature \<Rightarrow> emitted" where
  "generate_arm64_aapcs_trampoline sig =
     (case arm64_marshal_args 0 (param_types sig) idx0 of
        (marshalling, finished) \<Rightarrow>
          (let written = arm64_prologue @ arm64_reserve_stack sig @ marshalling
           in if finished then
                (case arm64_store_return (return_type sig) of
                   None \<Rightarrow> (concat (map le_bytes32 (written @ arm64_call_target sig)), 0)
                 | Some store \<Rightarrow>
                     (let code = concat (map le_bytes32
                                   (written @ arm64_call_target sig @ store @ arm64_epilogue sig))
                      in (code, length code)))
              else (concat (map le_bytes32 written), 0)))"

section \<open>Host selection (cross.c, lines 14-41 and 2052-2074)\<close>

datatype host = LINUX_X64 | MACOS_X64 | WIN64 | LINUX_ARM64 | MACOS_ARM64

text \<open>
  \<^verbatim>\<open>generate_generic_trampoline\<close>: the generator of the host. \<open>frame\<close> is passed on to the
  Win64 generator (see \<open>win64_call_target\<close>); the other generators do not depend on it.
\<close>

fun generate_generic_trampoline :: "host \<Rightarrow> 32 word \<Rightarrow> FFI_FunctionSignature \<Rightarrow> emitted" where
  "generate_generic_trampoline LINUX_X64 frame sig = generate_x86_64_sysv_trampoline sig"
| "generate_generic_trampoline WIN64 frame sig = generate_x86_64_win64_trampoline frame sig"
| "generate_generic_trampoline MACOS_X64 frame sig = generate_x86_64_sysv_trampoline sig"
| "generate_generic_trampoline LINUX_ARM64 frame sig = generate_arm64_aapcs_trampoline sig"
| "generate_generic_trampoline MACOS_ARM64 frame sig = generate_arm64_aapcs_trampoline sig"

text \<open>The bytes in \<^verbatim>\<open>code_buffer\<close> after the call, and the \<^verbatim>\<open>size_t\<close> returned.\<close>

abbreviation (input) written_bytes :: "emitted \<Rightarrow> byte list" where "written_bytes e \<equiv> fst e"
abbreviation (input) code_size :: "emitted \<Rightarrow> nat" where "code_size e \<equiv> snd e"


section \<open>Platform memory service (cross.c, lines 576-683)\<close>

text \<open>
  What the operating system and the C library can be observed to do, in order:
  executable regions mapped and unmapped, instruction-cache flushes, and entries into
  a trampoline (code address, \<^verbatim>\<open>args\<close>, \<^verbatim>\<open>num_args\<close>, return buffer).
\<close>

datatype event =
    EXEC_ALLOC addr nat
  | EXEC_FREE addr nat
  | ICACHE_FLUSH addr nat
  | TRAMPOLINE_CALL addr addr int addr

text \<open>
  The state the functions work on: the \<^verbatim>\<open>malloc\<close>ed signature objects, the executable
  regions with the code written to them (from the start of the region), the data
  memory (argument storage, return buffers, stack), and the events so far.
\<close>

record world =
  objs :: "addr \<rightharpoonup> FFI_FunctionSignature"
  exec_mem :: "addr \<rightharpoonup> byte list"
  mem :: "addr \<Rightarrow> byte"
  trace :: "event list"

text \<open>
  A call returns a value, or ends the process (\<^verbatim>\<open>exit\<close>) with a status, or accesses
  memory it does not own: a pointer that holds no object, or bytes past the end of a
  mapped region (undefined behaviour in C; on the hosts, typically \<^verbatim>\<open>SIGSEGV\<close>).
\<close>

datatype 'a outcome = Returns 'a world | Exits nat world | Faults

text \<open>
  What one construction finds in its environment: the page size
  (\<^verbatim>\<open>sysconf(_SC_PAGESIZE)\<close>), what \<^verbatim>\<open>malloc\<close> returns (0 when it fails), what
  \<^verbatim>\<open>mmap\<close> or \<^verbatim>\<open>VirtualAlloc\<close> returns (\<open>None\<close> when the OS refuses: \<^verbatim>\<open>MAP_FAILED\<close>,
  respectively \<^verbatim>\<open>NULL\<close>), and the four bytes that lie behind \<^verbatim>\<open>target_addr_val\<close> in the
  stack frame of the Win64 generator (see \<open>win64_call_target\<close>).
\<close>

record os_env =
  page_size :: "64 word"
  malloc_result :: addr
  exec_alloc_result :: "addr option"
  frame_residue :: "32 word"

text \<open>
  \<^verbatim>\<open>(size + page_size - 1) & ~(page_size - 1)\<close> in \<^verbatim>\<open>size_t\<close>: the number of bytes that are
  mapped for a request of \<open>sz\<close> bytes. The POSIX branches compute it themselves;
  \<^verbatim>\<open>VirtualAlloc\<close> is passed \<open>sz\<close> and rounds it up to whole pages in the same way.
\<close>

definition mapped_size :: "os_env \<Rightarrow> nat \<Rightarrow> nat" where
  "mapped_size os sz = unat ((of_nat sz + page_size os - 1) AND NOT (page_size os - 1))"

text \<open>The size the program passes to the OS call: the rounded size, on Windows \<open>sz\<close>.\<close>

definition region_size :: "host \<Rightarrow> os_env \<Rightarrow> nat \<Rightarrow> nat" where
  "region_size h os sz = (if h = WIN64 then sz else mapped_size os sz)"

text \<open>
  \<^verbatim>\<open>ffi_create_executable_memory\<close>. When the OS refuses, every platform branch calls
  \<^verbatim>\<open>BAIL_OUT\<close>, that is \<^verbatim>\<open>__double_tap_bail_out_internal\<close> (lines 3726-3735), which prints
  and calls \<^verbatim>\<open>exit(255)\<close>.
\<close>

definition ffi_create_executable_memory :: "host \<Rightarrow> os_env \<Rightarrow> nat \<Rightarrow> world \<Rightarrow> addr outcome" where
  "ffi_create_executable_memory h os sz w =
     (case exec_alloc_result os of
        None \<Rightarrow> Exits 255 w
      | Some m \<Rightarrow>
          Returns m (w\<lparr>exec_mem := (exec_mem w)(m \<mapsto> []),
                       trace := trace w @ [EXEC_ALLOC m (region_size h os sz)]\<rparr>))"

text \<open>\<^verbatim>\<open>ffi_free_executable_memory\<close>; a failing \<^verbatim>\<open>munmap\<close> or \<^verbatim>\<open>VirtualFree\<close> is only logged.\<close>

definition ffi_free_executable_memory :: "host \<Rightarrow> os_env \<Rightarrow> addr \<Rightarrow> nat \<Rightarrow> world \<Rightarrow> world" where
  "ffi_free_executable_memory h os m sz w =
     (if m \<noteq> 0
      then w\<lparr>exec_mem := (exec_mem w)(m := None),
             trace := trace w @ [EXEC_FREE m (region_size h os sz)]\<rparr>
      else w)"

definition ffi_flush_instruction_cache :: "addr \<Rightarrow> nat \<Rightarrow> world \<Rightarrow> world" where
  "ffi_flush_instruction_cache a len w = w\<lparr>trace := trace w @ [ICACHE_FLUSH a len]\<rparr>"

section \<open>Trampoline object (cross.c, lines 2089-2204)\<close>

text \<open>\<^verbatim>\<open>free(new_ffi_func)\<close>.\<close>

definition free_obj :: "addr \<Rightarrow> world \<Rightarrow> world" where
  "free_obj p w = w\<lparr>objs := (objs w)(p := None)\<rparr>"

text \<open>
  The two failure exits of \<^verbatim>\<open>create_ffi_function\<close> after the region exists
  (lines 2120-2122 and 2134-2136): release the region, free the object, return \<^verbatim>\<open>NULL\<close>.
\<close>

definition create_cleanup :: "host \<Rightarrow> os_env \<Rightarrow> addr \<Rightarrow> addr \<Rightarrow> world \<Rightarrow> addr outcome" where
  "create_cleanup h os p code w =
     Returns 0 (free_obj p (ffi_free_executable_memory h os code 512 w))"

text \<open>Writing bytes to the start of a region (\<^verbatim>\<open>memcpy\<close>, or the stores of a generator).\<close>

definition write_code :: "addr \<Rightarrow> byte list \<Rightarrow> world \<Rightarrow> world" where
  "write_code code bs w = w\<lparr>exec_mem := (exec_mem w)(code \<mapsto> bs)\<rparr>"

text \<open>
  Lines 2140-2186: the code is in the region; flush \<^verbatim>\<open>actual_code_size\<close> bytes and return
  the object.
\<close>

definition create_publish :: "addr \<Rightarrow> addr \<Rightarrow> nat \<Rightarrow> world \<Rightarrow> addr outcome" where
  "create_publish p code actual_code_size w =
     Returns p (ffi_flush_instruction_cache code actual_code_size w)"

text \<open>
  \<^verbatim>\<open>create_ffi_function\<close>. \<^verbatim>\<open>manual\<close> is the pair \<^verbatim>\<open>manual_trampoline_bytes\<close>,
  \<^verbatim>\<open>manual_trampoline_size\<close> (\<open>None\<close> for a \<^verbatim>\<open>NULL\<close> pointer). The returned address is
  the new object, 0 for \<^verbatim>\<open>NULL\<close>.

  The generator is called on the region before its result is looked at (line 2129,
  then the test of line 2130), and it is given no capacity: when it writes more bytes
  than are mapped, the call stores past the end of the region.
\<close>

definition create_ffi_function ::
  "host \<Rightarrow> os_env \<Rightarrow> string \<Rightarrow> FFI_Type \<Rightarrow> FFI_Type list \<Rightarrow> addr \<Rightarrow> byte list option
     \<Rightarrow> world \<Rightarrow> addr outcome" where
  "create_ffi_function h os name ret_type params fptr manual w =
     (let p = malloc_result os in
      if p = 0 then Returns 0 w
      else
        (let new_ffi_func =
               \<lparr>debug_name = name, return_type = ret_type, param_types = params,
                func_ptr = fptr, trampoline_size = 512, trampoline_code = 0\<rparr>
         in case ffi_create_executable_memory h os (trampoline_size new_ffi_func)
                   (w\<lparr>objs := (objs w)(p \<mapsto> new_ffi_func)\<rparr>) of
              Exits n w' \<Rightarrow> Exits n w'
            | Faults \<Rightarrow> Faults
            | Returns code w1 \<Rightarrow>
                (let sig = new_ffi_func\<lparr>trampoline_code := code\<rparr>;
                     w2 = w1\<lparr>objs := (objs w1)(p \<mapsto> sig)\<rparr>
                 in if code = 0 then Returns 0 (free_obj p w2)
                    else
                      (case (case manual of
                               None \<Rightarrow> None
                             | Some bs \<Rightarrow> if length bs > 0 then Some bs else None) of
                         Some manual_trampoline_bytes \<Rightarrow>
                           (if length manual_trampoline_bytes > trampoline_size sig
                            then create_cleanup h os p code w2
                            else if length manual_trampoline_bytes
                                      > mapped_size os (trampoline_size sig)
                            then Faults
                            else create_publish p code (length manual_trampoline_bytes)
                                   (write_code code manual_trampoline_bytes w2))
                       | None \<Rightarrow>
                           (let generated = generate_generic_trampoline h (frame_residue os) sig;
                                actual_code_size = code_size generated
                            in if length (written_bytes generated)
                                    > mapped_size os (trampoline_size sig)
                               then Faults
                               else
                                 (let w3 = write_code code (written_bytes generated) w2
                                  in if actual_code_size = 0
                                        \<or> actual_code_size > trampoline_size sig
                                     then create_cleanup h os p code w3
                                     else create_publish p code actual_code_size w3))))))"

text \<open>\<^verbatim>\<open>destroy_ffi_function\<close>.\<close>

definition destroy_ffi_function :: "host \<Rightarrow> os_env \<Rightarrow> addr \<Rightarrow> world \<Rightarrow> unit outcome" where
  "destroy_ffi_function h os ffi_func w =
     (if ffi_func \<noteq> 0 then
        (case objs w ffi_func of
           None \<Rightarrow> Faults
         | Some f \<Rightarrow>
             (let w1 = (if trampoline_code f \<noteq> 0
                        then ffi_free_executable_memory h os (trampoline_code f) (trampoline_size f) w
                        else w)
              in Returns () (free_obj ffi_func w1)))
      else Returns () w)"

section \<open>Dispatcher (cross.c, lines 2217-2337)\<close>

text \<open>Little-endian reads and writes of \<open>n\<close> bytes of data memory.\<close>

fun read_le :: "nat \<Rightarrow> (addr \<Rightarrow> byte) \<Rightarrow> addr \<Rightarrow> 64 word" where
  "read_le 0 m a = 0"
| "read_le (Suc n) m a = ucast (m a) OR push_bit 8 (read_le n m (a + 1))"

fun write_le :: "nat \<Rightarrow> (addr \<Rightarrow> byte) \<Rightarrow> addr \<Rightarrow> 64 word \<Rightarrow> (addr \<Rightarrow> byte)" where
  "write_le 0 m a v = m"
| "write_le (Suc n) m a v = write_le n (m(a := ucast v)) (a + 1) (drop_bit 8 v)"

text \<open>
  What entering the generated code does, as far as the dispatcher is concerned:
  from the code, the three arguments of \<^verbatim>\<open>GenericTrampolinePtr\<close> and the data memory to
  the data memory when the trampoline returns (\<open>None\<close> when it does not).
\<close>

type_synonym trampoline_run =
  "byte list \<Rightarrow> addr \<Rightarrow> int \<Rightarrow> addr \<Rightarrow> (addr \<Rightarrow> byte) \<Rightarrow> (addr \<Rightarrow> byte) option"

text \<open>
  \<^verbatim>\<open>invoke_foreign_function\<close>. \<^verbatim>\<open>sig\<close> and \<^verbatim>\<open>return_value_out\<close> are pointers (0 is
  \<^verbatim>\<open>NULL\<close>); \<^verbatim>\<open>return_value_out->value_ptr\<close> is read from data memory. The \<^verbatim>\<open>note\<close> and
  \<^verbatim>\<open>diag\<close> calls only print and are left out.
\<close>

definition invoke_foreign_function ::
  "trampoline_run \<Rightarrow> addr \<Rightarrow> addr \<Rightarrow> int \<Rightarrow> addr \<Rightarrow> world \<Rightarrow> bool outcome" where
  "invoke_foreign_function run sig args num_args return_value_out w =
     (case objs w sig of
        None \<Rightarrow> Faults
      | Some s \<Rightarrow>
          if num_args \<noteq> num_params s then Returns False w
          else
            (let actual_return_buffer_ptr =
                   (if return_value_out \<noteq> 0 then read_le 8 (mem w) return_value_out else 0)
             in if return_value_out \<noteq> 0 \<and> actual_return_buffer_ptr = 0
                   \<and> return_type s \<noteq> FFI_TYPE_VOID
                then Returns False w
                else if trampoline_code s = 0 then Returns False w
                else if return_type s \<noteq> FFI_TYPE_VOID \<and> actual_return_buffer_ptr = 0
                then Returns False w
                else
                  (case exec_mem w (trampoline_code s) of
                     None \<Rightarrow> Faults
                   | Some code \<Rightarrow>
                       (case run code args num_args actual_return_buffer_ptr (mem w) of
                          None \<Rightarrow> Faults
                        | Some m' \<Rightarrow>
                            Returns True
                              (w\<lparr>mem := m',
                                 trace := trace w @ [TRAMPOLINE_CALL (trampoline_code s) args
                                                       num_args actual_return_buffer_ptr]\<rparr>)))))"


section \<open>The x86-64 instructions the generators emit\<close>

text \<open>
  The generated bytes are run by the processor, not by the C program. This section
  gives the part of the x86-64 instruction set that the two x86-64 generators emit
  (Intel SDM vol. 2): decoding of the legacy prefix, the REX prefix, ModR/M, SIB and
  8-bit displacements, and the effect of each instruction on the sixteen general
  registers (0 = RAX, 1 = RCX, 2 = RDX, 3 = RBX, 4 = RSP, 5 = RBP, 6 = RSI, 7 = RDI,
  8-15 = R8-R15), on the low 64 bits of XMM0-XMM15 and on memory. Flags are not
  modelled: no emitted instruction reads them. A byte sequence outside this part
  does not decode.
\<close>

datatype load_kind = ZX8 | SX8 | ZX16 | SX16 | ZX32 | SX32 | L64

datatype x64_instr =
    I_ENDBR64
  | I_PUSH nat
  | I_POP nat
  | I_MOV_RR nat nat
  | I_SUB_IMM8 nat byte
  | I_ADD_IMM8 nat byte
  | I_MOV_AL byte
  | I_MOVABS nat "64 word"
  | I_LOAD load_kind nat nat "64 word"
  | I_STORE nat nat nat "64 word"
  | I_XMM_LOAD nat nat nat "64 word"
  | I_XMM_STORE nat nat nat "64 word"
  | I_CALL nat
  | I_RET

datatype operand = REG nat | MEM nat "64 word"

text \<open>
  ModR/M (with SIB and displacement) from the bytes after the opcode: the \<open>reg\<close>
  field, the register or memory operand (base register and sign-extended
  displacement) and the remaining bytes. Index registers, 32-bit displacements and
  RIP-relative operands are not emitted and do not decode.
\<close>

definition decode_modrm :: "bool \<Rightarrow> bool \<Rightarrow> nat list \<Rightarrow> (nat \<times> operand \<times> nat list) option" where
  "decode_modrm rex_x rex_b bs =
     (case bs of
        [] \<Rightarrow> None
      | m # rest \<Rightarrow>
          (let md = m div 64; reg = m div 8 mod 8; rm = m mod 8;
               hi = (if rex_b then 8 else 0)
           in if md = 3 then Some (reg, REG (rm + hi), rest)
              else if md = 2 then None
              else if rm = 4 then
                (case rest of
                   [] \<Rightarrow> None
                 | sib # rest' \<Rightarrow>
                     (let index = sib div 8 mod 8; base = sib mod 8
                      in if index = 4 \<and> \<not> rex_x then
                           (if md = 0 then
                              (if base = 5 then None else Some (reg, MEM (base + hi) 0, rest'))
                            else
                              (case rest' of
                                 [] \<Rightarrow> None
                               | d # rest'' \<Rightarrow>
                                   Some (reg, MEM (base + hi) (scast (of_nat d :: byte)), rest'')))
                         else None))
              else if md = 0 then
                (if rm = 5 then None else Some (reg, MEM (rm + hi) 0, rest))
              else
                (case rest of
                   [] \<Rightarrow> None
                 | d # rest' \<Rightarrow> Some (reg, MEM (rm + hi) (scast (of_nat d :: byte)), rest'))))"

text \<open>The 64-bit value of up to eight bytes, least significant first.\<close>

fun le_value :: "nat list \<Rightarrow> 64 word" where
  "le_value [] = 0"
| "le_value (b # bs) = of_nat b OR push_bit 8 (le_value bs)"

text \<open>The two-byte opcodes \<^verbatim>\<open>0F xx\<close>: MOVZX, MOVSX, MOVSS and MOVSD.\<close>

definition decode_0F ::
  "nat \<Rightarrow> bool \<Rightarrow> bool \<Rightarrow> bool \<Rightarrow> bool \<Rightarrow> nat list \<Rightarrow> (x64_instr \<times> nat list) option" where
  "decode_0F legacy w r x b bs =
     (case bs of
        [] \<Rightarrow> None
      | op2 # bs' \<Rightarrow>
          (case decode_modrm x b bs' of
             None \<Rightarrow> None
           | Some (reg, REG d, rest) \<Rightarrow> None
           | Some (reg, MEM base disp, rest) \<Rightarrow>
               (let rg = reg + (if r then 8 else 0)
                in if op2 = 0xB6 \<and> (w \<or> legacy = 0) then Some (I_LOAD ZX8 rg base disp, rest)
                   else if op2 = 0xB7 \<and> (w \<or> legacy = 0) then Some (I_LOAD ZX16 rg base disp, rest)
                   else if op2 = 0xBE \<and> w then Some (I_LOAD SX8 rg base disp, rest)
                   else if op2 = 0xBF \<and> w then Some (I_LOAD SX16 rg base disp, rest)
                   else if op2 = 0x10 \<and> legacy = 0xF3 then Some (I_XMM_LOAD 4 rg base disp, rest)
                   else if op2 = 0x10 \<and> legacy = 0xF2 then Some (I_XMM_LOAD 8 rg base disp, rest)
                   else if op2 = 0x11 \<and> legacy = 0xF3 then Some (I_XMM_STORE 4 rg base disp, rest)
                   else if op2 = 0x11 \<and> legacy = 0xF2 then Some (I_XMM_STORE 8 rg base disp, rest)
                   else None)))"

text \<open>The one-byte opcodes with a ModR/M byte: MOV, MOVSXD, SUB/ADD imm8, CALL.\<close>

definition decode_modrm_op ::
  "nat \<Rightarrow> nat \<Rightarrow> nat \<Rightarrow> bool \<Rightarrow> bool \<Rightarrow> bool \<Rightarrow> bool \<Rightarrow> nat list \<Rightarrow> (x64_instr \<times> nat list) option" where
  "decode_modrm_op op legacy rex w r x b bs =
     (case decode_modrm x b bs of
        None \<Rightarrow> None
      | Some (reg, opnd, rest) \<Rightarrow>
          (let rg = reg + (if r then 8 else 0)
           in if op = 0x89 then
                (case opnd of
                   REG d \<Rightarrow> if w then Some (I_MOV_RR d rg, rest) else None
                 | MEM base disp \<Rightarrow>
                     Some (I_STORE (if w then 8 else if legacy = 0x66 then 2 else 4) rg base disp, rest))
              else if op = 0x88 then
                (case opnd of
                   REG d \<Rightarrow> None
                 | MEM base disp \<Rightarrow>
                     if rex = 0 \<and> 4 \<le> reg then None else Some (I_STORE 1 rg base disp, rest))
              else if op = 0x8B then
                (case opnd of
                   REG d \<Rightarrow> None
                 | MEM base disp \<Rightarrow>
                     if w then Some (I_LOAD L64 rg base disp, rest)
                     else if legacy = 0 then Some (I_LOAD ZX32 rg base disp, rest)
                     else None)
              else if op = 0x63 then
                (case opnd of
                   REG d \<Rightarrow> None
                 | MEM base disp \<Rightarrow> if w then Some (I_LOAD SX32 rg base disp, rest) else None)
              else if op = 0x83 then
                (case (opnd, rest) of
                   (REG d, imm # rest') \<Rightarrow>
                     if w \<and> reg = 5 then Some (I_SUB_IMM8 d (of_nat imm), rest')
                     else if w \<and> reg = 0 then Some (I_ADD_IMM8 d (of_nat imm), rest')
                     else None
                 | _ \<Rightarrow> None)
              else if op = 0xFF then
                (case opnd of
                   REG d \<Rightarrow> if reg = 2 then Some (I_CALL d, rest) else None
                 | MEM base disp \<Rightarrow> None)
              else None))"

text \<open>One instruction from the front of a byte sequence (bytes as numbers below 256).\<close>

definition x64_decode :: "nat list \<Rightarrow> (x64_instr \<times> nat list) option" where
  "x64_decode bs0 =
     (if take 4 bs0 = [0xF3, 0x0F, 0x1E, 0xFA] then Some (I_ENDBR64, drop 4 bs0)
      else
        (let (legacy, bs1) =
               (case bs0 of
                  [] \<Rightarrow> (0, [])
                | p # t \<Rightarrow> if p = 0x66 \<or> p = 0xF2 \<or> p = 0xF3 then (p, t) else (0, bs0));
             (rex, bs2) =
               (case bs1 of
                  [] \<Rightarrow> (0, [])
                | p # t \<Rightarrow> if 0x40 \<le> p \<and> p \<le> 0x4F then (p, t) else (0, bs1));
             w = (rex div 8 mod 2 = 1); r = (rex div 4 mod 2 = 1);
             x = (rex div 2 mod 2 = 1); b = (rex mod 2 = 1);
             hi = (if b then 8 else 0)
         in case bs2 of
              [] \<Rightarrow> None
            | op # bs3 \<Rightarrow>
                if 0x50 \<le> op \<and> op \<le> 0x57 \<and> legacy = 0 then Some (I_PUSH (op - 0x50 + hi), bs3)
                else if 0x58 \<le> op \<and> op \<le> 0x5F \<and> legacy = 0 then Some (I_POP (op - 0x58 + hi), bs3)
                else if op = 0xC3 \<and> legacy = 0 then Some (I_RET, bs3)
                else if op = 0xB0 \<and> legacy = 0 then
                  (case bs3 of [] \<Rightarrow> None | imm # rest \<Rightarrow> Some (I_MOV_AL (of_nat imm), rest))
                else if 0xB8 \<le> op \<and> op \<le> 0xBF \<and> w \<and> legacy = 0 then
                  (if length bs3 \<ge> 8
                   then Some (I_MOVABS (op - 0xB8 + hi) (le_value (take 8 bs3)), drop 8 bs3)
                   else None)
                else if op = 0x0F then decode_0F legacy w r x b bs3
                else decode_modrm_op op legacy rex w r x b bs3))"

text \<open>
  A whole code sequence; every instruction takes at least one byte, so as many steps
  as there are bytes suffice.
\<close>

fun x64_decode_all :: "nat \<Rightarrow> nat list \<Rightarrow> x64_instr list option" where
  "x64_decode_all fuel [] = Some []"
| "x64_decode_all 0 (b # bs) = None"
| "x64_decode_all (Suc fuel) (b # bs) =
     (case x64_decode (b # bs) of
        None \<Rightarrow> None
      | Some (i, rest) \<Rightarrow> map_option ((#) i) (x64_decode_all fuel rest))"

definition x64_disassemble :: "byte list \<Rightarrow> x64_instr list option" where
  "x64_disassemble code = x64_decode_all (length code) (map unat code)"

record x64_state =
  gpr :: "nat \<Rightarrow> 64 word"
  xmm :: "nat \<Rightarrow> 64 word"
  memory :: "addr \<Rightarrow> byte"

abbreviation (input) RAX :: nat where "RAX \<equiv> 0"
abbreviation (input) RCX :: nat where "RCX \<equiv> 1"
abbreviation (input) RDX :: nat where "RDX \<equiv> 2"
abbreviation (input) RSP :: nat where "RSP \<equiv> 4"
abbreviation (input) RSI :: nat where "RSI \<equiv> 6"
abbreviation (input) RDI :: nat where "RDI \<equiv> 7"
abbreviation (input) R8 :: nat where "R8 \<equiv> 8"

definition load_value :: "load_kind \<Rightarrow> (addr \<Rightarrow> byte) \<Rightarrow> addr \<Rightarrow> 64 word" where
  "load_value k m a =
     (case k of
        ZX8 \<Rightarrow> read_le 1 m a
      | SX8 \<Rightarrow> scast (ucast (read_le 1 m a) :: 8 word)
      | ZX16 \<Rightarrow> read_le 2 m a
      | SX16 \<Rightarrow> scast (ucast (read_le 2 m a) :: 16 word)
      | ZX32 \<Rightarrow> read_le 4 m a
      | SX32 \<Rightarrow> scast (ucast (read_le 4 m a) :: 32 word)
      | L64 \<Rightarrow> read_le 8 m a)"

text \<open>The effect of one instruction other than CALL and RET.\<close>

fun x64_step :: "x64_instr \<Rightarrow> x64_state \<Rightarrow> x64_state" where
  "x64_step I_ENDBR64 s = s"
| "x64_step (I_PUSH r) s =
     (let sp = gpr s RSP - 8
      in s\<lparr>gpr := (gpr s)(RSP := sp), memory := write_le 8 (memory s) sp (gpr s r)\<rparr>)"
| "x64_step (I_POP r) s =
     (let v = read_le 8 (memory s) (gpr s RSP)
      in s\<lparr>gpr := (gpr s)(RSP := gpr s RSP + 8, r := v)\<rparr>)"
| "x64_step (I_MOV_RR d r) s = s\<lparr>gpr := (gpr s)(d := gpr s r)\<rparr>"
| "x64_step (I_SUB_IMM8 d imm) s = s\<lparr>gpr := (gpr s)(d := gpr s d - scast imm)\<rparr>"
| "x64_step (I_ADD_IMM8 d imm) s = s\<lparr>gpr := (gpr s)(d := gpr s d + scast imm)\<rparr>"
| "x64_step (I_MOV_AL imm) s =
     s\<lparr>gpr := (gpr s)(RAX := (gpr s RAX AND NOT 0xFF) OR ucast imm)\<rparr>"
| "x64_step (I_MOVABS d imm) s = s\<lparr>gpr := (gpr s)(d := imm)\<rparr>"
| "x64_step (I_LOAD k d base disp) s =
     s\<lparr>gpr := (gpr s)(d := load_value k (memory s) (gpr s base + disp))\<rparr>"
| "x64_step (I_STORE n r base disp) s =
     s\<lparr>memory := write_le n (memory s) (gpr s base + disp) (gpr s r)\<rparr>"
| "x64_step (I_XMM_LOAD n d base disp) s =
     s\<lparr>xmm := (xmm s)(d := read_le n (memory s) (gpr s base + disp))\<rparr>"
| "x64_step (I_XMM_STORE n r base disp) s =
     s\<lparr>memory := write_le n (memory s) (gpr s base + disp) (xmm s r)\<rparr>"
| "x64_step (I_CALL r) s = s"
| "x64_step I_RET s = s"

text \<open>
  The native function behind a CALL: from the address called and the state at the
  call to the state when it has returned (\<open>None\<close> when there is no such function).
\<close>

type_synonym native = "addr \<Rightarrow> x64_state \<Rightarrow> x64_state option"

text \<open>
  Straight-line execution up to the RET (the generators emit no jumps). Running off
  the end of the code is \<open>None\<close>.
\<close>

fun x64_run :: "native \<Rightarrow> x64_instr list \<Rightarrow> x64_state \<Rightarrow> x64_state option" where
  "x64_run target [] s = None"
| "x64_run target (I_RET # is) s = Some (s\<lparr>gpr := (gpr s)(RSP := gpr s RSP + 8)\<rparr>)"
| "x64_run target (I_CALL r # is) s =
     (case target (gpr s r) s of None \<Rightarrow> None | Some s' \<Rightarrow> x64_run target is s')"
| "x64_run target (i # is) s = x64_run target is (x64_step i s)"

text \<open>The state in which the first CALL is reached.\<close>

fun x64_state_at_call :: "x64_instr list \<Rightarrow> x64_state \<Rightarrow> x64_state option" where
  "x64_state_at_call [] s = None"
| "x64_state_at_call (I_RET # is) s = None"
| "x64_state_at_call (I_CALL r # is) s = Some s"
| "x64_state_at_call (i # is) s = x64_state_at_call is (x64_step i s)"

text \<open>
  Entry into a trampoline from C (\<^verbatim>\<open>trampoline(args, num_args, return_buffer)\<close>): the
  three arguments are in RDI, RSI, RDX under System V and in RCX, RDX, R8 under the
  Microsoft convention; \<open>s0\<close> gives the other registers, among them RSP, which points
  at the return address.
\<close>

definition x64_entry :: "host \<Rightarrow> x64_state \<Rightarrow> addr \<Rightarrow> int \<Rightarrow> addr \<Rightarrow> (addr \<Rightarrow> byte) \<Rightarrow> x64_state" where
  "x64_entry h s0 args num_args ret m =
     (if h = WIN64
      then s0\<lparr>gpr := (gpr s0)(RCX := args, RDX := of_int num_args, R8 := ret), memory := m\<rparr>
      else s0\<lparr>gpr := (gpr s0)(RDI := args, RSI := of_int num_args, RDX := ret), memory := m\<rparr>)"

definition is_x64 :: "host \<Rightarrow> bool" where
  "is_x64 h \<longleftrightarrow> h = LINUX_X64 \<or> h = MACOS_X64 \<or> h = WIN64"

definition x64_trampoline_run :: "host \<Rightarrow> native \<Rightarrow> x64_state \<Rightarrow> trampoline_run" where
  "x64_trampoline_run h target s0 code args num_args ret m =
     (if is_x64 h then
        (case x64_disassemble code of
           None \<Rightarrow> None
         | Some is \<Rightarrow> map_option memory (x64_run target is (x64_entry h s0 args num_args ret m)))
      else None)"


section \<open>Fixtures of the test suite (cross.c, lines 319-566 and 2379-3221)\<close>

text \<open>
  \<^verbatim>\<open>int int_identity_minimal(int val) { return val; }\<close> as compiled code: the value
  arrives in the low 32 bits of the first integer argument register of the host's
  convention (ECX on Win64, EDI under System V) and is returned in EAX.
\<close>

definition int_identity_minimal :: "host \<Rightarrow> addr \<Rightarrow> native" where
  "int_identity_minimal h f a s =
     (if a = f
      then Some (s\<lparr>gpr := (gpr s)(RAX := ucast (ucast (gpr s (if h = WIN64 then RCX else RDI)) :: 32 word))\<rparr>)
      else None)"

text \<open>Addresses used by the fixtures: the target function, the object, the code region.\<close>

abbreviation (input) target_addr :: addr where "target_addr \<equiv> 0x401136"
abbreviation (input) obj_addr :: addr where "obj_addr \<equiv> 0x5000"
abbreviation (input) code_addr :: addr where "code_addr \<equiv> 0x10000"
abbreviation (input) args_addr :: addr where "args_addr \<equiv> 0x1000"
abbreviation (input) value_addr :: addr where "value_addr \<equiv> 0x2000"
abbreviation (input) ret_arg_addr :: addr where "ret_arg_addr \<equiv> 0x3000"
abbreviation (input) ret_buf_addr :: addr where "ret_buf_addr \<equiv> 0x4000"

text \<open>
  An OS that grants both allocations, with 4096-byte pages. The bytes behind
  \<^verbatim>\<open>target_addr_val\<close> are zero: the Win64 code then calls the address it was given.
\<close>

definition test_os :: os_env where
  "test_os = \<lparr>page_size = 4096, malloc_result = obj_addr, exec_alloc_result = Some code_addr,
              frame_residue = 0\<rparr>"

text \<open>An OS that refuses the executable mapping.\<close>

definition refusing_os :: os_env where
  "refusing_os = \<lparr>page_size = 4096, malloc_result = obj_addr, exec_alloc_result = None,
                  frame_residue = 0\<rparr>"

text \<open>
  Data memory of the identity tests: \<^verbatim>\<open>args[0].value_ptr = &value\<close>,
  \<^verbatim>\<open>g_ffi_return_value.value_ptr = &g_ret_storage\<close> (cleared), \<^verbatim>\<open>value = v\<close> in four bytes.
\<close>

definition identity_mem :: "64 word \<Rightarrow> addr \<Rightarrow> byte" where
  "identity_mem v =
     write_le 8 (write_le 4 (write_le 8 (\<lambda>_. 0) ret_arg_addr ret_buf_addr) value_addr v)
       args_addr value_addr"

definition identity_world :: "64 word \<Rightarrow> world" where
  "identity_world v = \<lparr>objs = Map.empty, exec_mem = Map.empty, mem = identity_mem v, trace = []\<rparr>"

text \<open>
  The processor when the dispatcher calls the trampoline: RSP + 8 is a multiple of 16
  (the call pushed the return address onto an aligned stack).
\<close>

definition entry_cpu :: x64_state where
  "entry_cpu = \<lparr>gpr = (\<lambda>_. 0)(RSP := 0x7FFFFFF8), xmm = (\<lambda>_. 0), memory = (\<lambda>_. 0)\<rparr>"

text \<open>
  \<^verbatim>\<open>test_int_identity_min_max\<close> (lines 2897-2921) for one value: create the trampoline
  for \<^verbatim>\<open>int_identity_minimal\<close>, invoke it on \<open>v\<close>, and read
  \<^verbatim>\<open>g_ret_storage.i_val\<close>; the result is the invocation's return value and that
  integer.
\<close>

definition test_int_identity :: "host \<Rightarrow> 64 word \<Rightarrow> (bool \<times> 64 word) option" where
  "test_int_identity h v =
     (case create_ffi_function h test_os ''int_identity_minimal'' FFI_TYPE_INT [FFI_TYPE_INT]
             target_addr None (identity_world v) of
        Returns p w1 \<Rightarrow>
          (case invoke_foreign_function
                  (x64_trampoline_run h (int_identity_minimal h target_addr) entry_cpu)
                  p args_addr 1 ret_arg_addr w1 of
             Returns b w2 \<Rightarrow> Some (b, read_le 4 (mem w2) ret_buf_addr)
           | Exits n w2 \<Rightarrow> None
           | Faults \<Rightarrow> None)
      | Exits n w1 \<Rightarrow> None
      | Faults \<Rightarrow> None)"

text \<open>
  The signature of \<^verbatim>\<open>test_error_case_add_two_ints_wrong_arg_count\<close> (lines 3206-3221)
  as an object in the store.
\<close>

definition add_two_ints_sig :: FFI_FunctionSignature where
  "add_two_ints_sig =
     \<lparr>debug_name = ''add_two_ints'', return_type = FFI_TYPE_INT,
      param_types = [FFI_TYPE_INT, FFI_TYPE_INT], func_ptr = target_addr,
      trampoline_size = 512, trampoline_code = code_addr\<rparr>"

definition add_two_ints_world :: world where
  "add_two_ints_world =
     \<lparr>objs = [obj_addr \<mapsto> add_two_ints_sig], exec_mem = [code_addr \<mapsto> [OPCODE_RET]],
      mem = (\<lambda>_. 0), trace = []\<rparr>"

text \<open>A trampoline runner for the fixtures whose native target does not exist.\<close>

definition no_target_run :: trampoline_run where
  "no_target_run = x64_trampoline_run LINUX_X64 (\<lambda>a s. None) entry_cpu"

text \<open>
  The state in which generated x86-64 code reaches its CALL, from an entry state
  (\<open>None\<close> when the generator returns 0 or the code does not get there).
\<close>

definition x64_call_site ::
  "host \<Rightarrow> 32 word \<Rightarrow> FFI_FunctionSignature \<Rightarrow> x64_state \<Rightarrow> x64_state option" where
  "x64_call_site h frame sig s =
     (case generate_generic_trampoline h frame sig of
        (code, actual_code_size) \<Rightarrow>
          if actual_code_size = 0 then None
          else
            (case x64_disassemble code of
               None \<Rightarrow> None
             | Some is \<Rightarrow> x64_state_at_call is s))"

text \<open>What a call returned, if it returned.\<close>

definition returned :: "'a outcome \<Rightarrow> 'a option" where
  "returned r = (case r of Returns v w \<Rightarrow> Some v | Exits n w \<Rightarrow> None | Faults \<Rightarrow> None)"

text \<open>A signature around a parameter list, as \<^verbatim>\<open>create_ffi_function\<close> fills it in.\<close>

definition signature_of ::
  "string \<Rightarrow> FFI_Type \<Rightarrow> FFI_Type list \<Rightarrow> addr \<Rightarrow> addr \<Rightarrow> FFI_FunctionSignature" where
  "signature_of name ret_type params fptr code =
     \<lparr>debug_name = name, return_type = ret_type, param_types = params, func_ptr = fptr,
      trampoline_size = 512, trampoline_code = code\<rparr>"

text \<open>
  Observations at the call site of generated x86-64 code: RSP modulo 16, and AL.
\<close>

definition rsp_at_call_mod16 ::
  "host \<Rightarrow> 32 word \<Rightarrow> FFI_FunctionSignature \<Rightarrow> x64_state \<Rightarrow> nat option" where
  "rsp_at_call_mod16 h frame sig s =
     map_option (\<lambda>s'. unat (gpr s' RSP) mod 16) (x64_call_site h frame sig s)"

definition al_at_call ::
  "host \<Rightarrow> 32 word \<Rightarrow> FFI_FunctionSignature \<Rightarrow> x64_state \<Rightarrow> byte option" where
  "al_at_call h frame sig s = map_option (\<lambda>s'. ucast (gpr s' RAX)) (x64_call_site h frame sig s)"

text \<open>
  The signature of \<^verbatim>\<open>test_get_fixed_int_minimal\<close> (lines 2379-2392): no parameters,
  \<^verbatim>\<open>int\<close> result; and the state in which the dispatcher enters its trampoline.
\<close>

definition get_fixed_int_sig :: FFI_FunctionSignature where
  "get_fixed_int_sig = signature_of ''get_fixed_int_minimal'' FFI_TYPE_INT [] target_addr code_addr"

definition get_fixed_int_entry :: "host \<Rightarrow> x64_state" where
  "get_fixed_int_entry h = x64_entry h entry_cpu 0 0 ret_buf_addr (\<lambda>_. 0)"

text \<open>
  The code the two x86-64 generators emit for that signature, and its instructions.
  On Win64 the upper half of the address called is \<open>frame\<close>.
\<close>

definition sysv_get_fixed_int_code :: "byte list" where
  "sysv_get_fixed_int_code =
     [0xF3, 0x0F, 0x1E, 0xFA, 0x55, 0x48, 0x89, 0xE5, 0x41, 0x56, 0x49, 0x89, 0xFE, 0x41, 0x54,
      0x49, 0x89, 0xD4, 0xB0, 0x00, 0x48, 0xB8, 0x36, 0x11, 0x40, 0, 0, 0, 0, 0, 0xFF, 0xD0,
      0x41, 0x89, 0x04, 0x24, 0x41, 0x5C, 0x41, 0x5E, 0x5D, 0xC3]"

definition sysv_get_fixed_int_asm :: "x64_instr list" where
  "sysv_get_fixed_int_asm =
     [I_ENDBR64, I_PUSH 5, I_MOV_RR 5 4, I_PUSH 14, I_MOV_RR 14 7, I_PUSH 12, I_MOV_RR 12 2,
      I_MOV_AL 0, I_MOVABS 0 0x401136, I_CALL 0, I_STORE 4 0 12 0, I_POP 12, I_POP 14,
      I_POP 5, I_RET]"

definition win64_get_fixed_int_code :: "32 word \<Rightarrow> byte list" where
  "win64_get_fixed_int_code frame =
     [0x55, 0x48, 0x89, 0xE5, 0x41, 0x55, 0x49, 0x89, 0xCD, 0x41, 0x56, 0x4D, 0x89, 0xC6,
      0x48, 0x83, 0xEC, 0x28, 0x48, 0xB8, 0x36, 0x11, 0x40, 0] @ le_bytes32 frame
     @ [0xFF, 0xD0, 0x41, 0x89, 0x04, 0x26, 0x48, 0x83, 0xC4, 0x28, 0x41, 0x5E, 0x41, 0x5D,
        0x5D, 0xC3]"

definition win64_get_fixed_int_asm :: "32 word \<Rightarrow> x64_instr list" where
  "win64_get_fixed_int_asm frame =
     [I_PUSH 5, I_MOV_RR 5 4, I_PUSH 13, I_MOV_RR 13 1, I_PUSH 14, I_MOV_RR 14 8,
      I_SUB_IMM8 4 40,
      I_MOVABS 0 (le_value (map unat ([0x36, 0x11, 0x40, 0] @ le_bytes32 frame))),
      I_CALL 0, I_STORE 4 0 14 0, I_ADD_IMM8 4 40,
      I_POP 14, I_POP 13, I_POP 5, I_RET]"

text \<open>Nine parameters, the last one Void, after eight that fill the AArch64 integer registers.\<close>

definition void_ninth_params :: "FFI_Type list" where
  "void_ninth_params =
     [FFI_TYPE_INT, FFI_TYPE_INT, FFI_TYPE_INT, FFI_TYPE_INT, FFI_TYPE_INT, FFI_TYPE_INT,
      FFI_TYPE_INT, FFI_TYPE_INT, FFI_TYPE_VOID]"

text \<open>
  Sixty and 450 \<^verbatim>\<open>int\<close> parameters: the System V code of the first is longer than the
  512 bytes asked for, that of the second longer than the page that is mapped.
\<close>

definition sixty_ints_params :: "FFI_Type list" where
  "sixty_ints_params = replicate 60 FFI_TYPE_INT"

definition many_ints_params :: "FFI_Type list" where
  "many_ints_params = replicate 450 FFI_TYPE_INT"

section \<open>Dispatcher validation\<close>

text \<open>
  C2. For every constructed signature (an object \<open>s\<close> in the store at \<open>sig\<close>) and every
  \<open>num_args\<close> different from its parameter count, \<^verbatim>\<open>invoke_foreign_function\<close> returns
  false and leaves the whole state as it was: no trampoline entry is added to the
  trace and data memory, the return slot included, is unchanged. This holds whatever
  the trampoline would do (\<open>run\<close> is arbitrary).
\<close>

theorem C2_arity_mismatch_returns_false:
  assumes "objs w sig = Some s" and "num_args \<noteq> num_params s"
  shows "invoke_foreign_function run sig args num_args return_value_out w = Returns False w"
  using assms by (simp add: invoke_foreign_function_def)

theorem C2_arity_mismatch_witness:
  "objs add_two_ints_world obj_addr = Some add_two_ints_sig
   \<and> (1 :: int) \<noteq> num_params add_two_ints_sig
   \<and> invoke_foreign_function no_target_run obj_addr args_addr 1 ret_arg_addr add_two_ints_world
       = Returns False add_two_ints_world"
  using C2_arity_mismatch_returns_false
    [of add_two_ints_world obj_addr add_two_ints_sig 1 no_target_run args_addr ret_arg_addr]
  by (simp add: add_two_ints_world_def add_two_ints_sig_def num_params_def)

text \<open>
  C3. For every signature whose return type is not Void, \<^verbatim>\<open>invoke_foreign_function\<close>
  called with \<^verbatim>\<open>return_value_out == NULL\<close> or with \<^verbatim>\<open>return_value_out->value_ptr == NULL\<close>
  returns false and leaves the state as it was: the trampoline, and so the target
  function, is not entered.
\<close>

theorem C3_null_return_slot_returns_false:
  assumes "objs w sig = Some s" and "return_type s \<noteq> FFI_TYPE_VOID"
    and "return_value_out = 0 \<or> read_le 8 (mem w) return_value_out = 0"
  shows "invoke_foreign_function run sig args num_args return_value_out w = Returns False w"
  using assms by (auto simp: invoke_foreign_function_def Let_def)

theorem C3_null_return_slot_witness:
  "objs add_two_ints_world obj_addr = Some add_two_ints_sig
   \<and> return_type add_two_ints_sig \<noteq> FFI_TYPE_VOID
   \<and> read_le 8 (mem add_two_ints_world) ret_arg_addr = 0
   \<and> invoke_foreign_function no_target_run obj_addr args_addr 2 0 add_two_ints_world
       = Returns False add_two_ints_world
   \<and> invoke_foreign_function no_target_run obj_addr args_addr 2 ret_arg_addr add_two_ints_world
       = Returns False add_two_ints_world"
proof -
  have obj: "objs add_two_ints_world obj_addr = Some add_two_ints_sig"
    by (simp add: add_two_ints_world_def)
  have non_void: "return_type add_two_ints_sig \<noteq> FFI_TYPE_VOID"
    by (simp add: add_two_ints_sig_def)
  have null_ptr: "read_le 8 (mem add_two_ints_world) ret_arg_addr = 0"
    by (simp add: add_two_ints_world_def eval_nat_numeral)
  show ?thesis
    using obj non_void null_ptr
      C3_null_return_slot_returns_false [OF obj non_void, of 0 no_target_run args_addr 2]
      C3_null_return_slot_returns_false [OF obj non_void, of ret_arg_addr no_target_run args_addr 2]
    by simp
qed

section \<open>Destruction\<close>

text \<open>
  C10. \<^verbatim>\<open>destroy_ffi_function(NULL)\<close> is a no-op: it returns normally with the state
  unchanged (nothing is unmapped or freed), on every host and in every state, also one
  in which no object lives at address 0, so the pointer is not dereferenced.
\<close>

theorem C10_destroy_null_is_noop:
  "destroy_ffi_function h os 0 w = Returns () w"
  by (simp add: destroy_ffi_function_def)


section \<open>Construction failures\<close>

text \<open>
  C7. When the OS refuses the executable mapping (and \<^verbatim>\<open>malloc\<close> succeeded),
  \<^verbatim>\<open>ffi_create_executable_memory\<close> does not return \<^verbatim>\<open>NULL\<close>: it ends the process with
  \<^verbatim>\<open>exit(255)\<close>, so \<^verbatim>\<open>create_ffi_function\<close> returns nothing to its caller.
\<close>

theorem C7_alloc_refusal_exits_process:
  assumes "malloc_result os \<noteq> 0" and "exec_alloc_result os = None"
  shows "ffi_create_executable_memory h os sz w = Exits 255 w
         \<and> returned (create_ffi_function h os name rt ps f manual w) = None
         \<and> (\<exists>w'. create_ffi_function h os name rt ps f manual w = Exits 255 w')"
  using assms
  by (simp add: create_ffi_function_def ffi_create_executable_memory_def Let_def returned_def)

theorem C7_alloc_refusal_witness:
  "malloc_result refusing_os \<noteq> 0
   \<and> exec_alloc_result refusing_os = None
   \<and> ffi_create_executable_memory LINUX_X64 refusing_os 512 (identity_world 0)
       = Exits 255 (identity_world 0)
   \<and> returned (create_ffi_function LINUX_X64 refusing_os ''int_identity_minimal'' FFI_TYPE_INT
                 [FFI_TYPE_INT] target_addr None (identity_world 0)) = None"
proof -
  have m: "malloc_result refusing_os \<noteq> 0" and e: "exec_alloc_result refusing_os = None"
    by (simp_all add: refusing_os_def)
  from C7_alloc_refusal_exits_process [OF m e, of LINUX_X64 512 "identity_world 0"
      "''int_identity_minimal''" FFI_TYPE_INT "[FFI_TYPE_INT]" target_addr None] m e
  show ?thesis by simp
qed

text \<open>
  Both x86-64 generators return 0 for a parameter list that contains Void: the
  iteration of the marshalling loop that meets it ends in \<^verbatim>\<open>return 0\<close>.
\<close>

lemma sysv_marshal_arg_void: "sysv_marshal_arg i FFI_TYPE_VOID c = (sysv_load_value_ptr i, None)"
  by (simp add: sysv_marshal_arg_def sysv_spill_arg_def is_xmm_type_def is_int128_type_def Let_def)

lemma sysv_marshal_args_void:
  "FFI_TYPE_VOID \<in> set ts \<Longrightarrow> snd (sysv_marshal_args i ts c) = False"
proof (induction ts arbitrary: i c)
  case Nil
  then show ?case by simp
next
  case (Cons t ts)
  show ?case
  proof (cases "t = FFI_TYPE_VOID")
    case True
    then show ?thesis by (simp add: sysv_marshal_arg_void)
  next
    case False
    with Cons.prems have "FFI_TYPE_VOID \<in> set ts" by simp
    then have "snd (sysv_marshal_args (Suc i) ts c') = False" for c' by (rule Cons.IH)
    then have "\<not> b" if "sysv_marshal_args (Suc i) ts c' = (bs, b)" for c' bs b
      using that by (metis snd_conv)
    then show ?thesis by (auto split: option.splits prod.splits)
  qed
qed

lemma win64_marshal_arg_void:
  "win64_marshal_arg n i FFI_TYPE_VOID c = (win64_load_value_ptr i, None)"
  by (simp add: win64_marshal_arg_def win64_spill_arg_def is_xmm_type_def is_int128_type_def Let_def)

lemma win64_marshal_args_void:
  "FFI_TYPE_VOID \<in> set ts \<Longrightarrow> snd (win64_marshal_args n i ts c) = False"
proof (induction ts arbitrary: i c)
  case Nil
  then show ?case by simp
next
  case (Cons t ts)
  show ?case
  proof (cases "t = FFI_TYPE_VOID")
    case True
    then show ?thesis by (simp add: win64_marshal_arg_void)
  next
    case False
    with Cons.prems have "FFI_TYPE_VOID \<in> set ts" by simp
    then have "snd (win64_marshal_args n (Suc i) ts c') = False" for c' by (rule Cons.IH)
    then have "\<not> b" if "win64_marshal_args n (Suc i) ts c' = (bs, b)" for c' bs b
      using that by (metis snd_conv)
    then show ?thesis by (auto split: option.splits prod.splits)
  qed
qed

lemma x64_generator_void:
  assumes "is_x64 h" and "FFI_TYPE_VOID \<in> set (param_types sig)"
  shows "code_size (generate_generic_trampoline h frame sig) = 0"
proof -
  from assms(2) have "snd (sysv_marshal_args 0 (param_types sig) idx0) = False"
    by (simp add: sysv_marshal_args_void)
  then have a: "\<not> b" if "sysv_marshal_args 0 (param_types sig) idx0 = (bs, b)" for bs b
    using that by (metis snd_conv)
  from assms(2) have "snd (win64_marshal_args n 0 (param_types sig) c) = False" for n c
    by (simp add: win64_marshal_args_void)
  then have b: "\<not> b" if "win64_marshal_args n 0 (param_types sig) c = (bs, b)" for n c bs b
    using that by (metis snd_conv)
  from assms(1) show ?thesis
    by (cases h)
       (auto simp: is_x64_def generate_x86_64_sysv_trampoline_def
          generate_x86_64_win64_trampoline_def Let_def split: prod.splits dest: a b)
qed

text \<open>
  The System V code for \<open>many_ints_params\<close>: six \<^verbatim>\<open>int\<close>s go to registers (7 bytes
  each), the first stack argument takes 11 bytes and every further one 12.
\<close>

lemma sysv_count_ints_spilled:
  "6 \<le> g \<Longrightarrow> sysv_count_args (replicate n FFI_TYPE_INT) (g, x, k) = (g, x, k + n)"
  by (induction n arbitrary: k) simp_all

lemma sysv_marshal_ints_spilled:
  assumes "6 \<le> gp_reg_idx c" and "0 < stack_arg_current_idx c"
  shows "\<exists>bs. sysv_marshal_args i (replicate n FFI_TYPE_INT) c = (bs, True) \<and> length bs = 12 * n"
  using assms
proof (induction n arbitrary: i c)
  case 0
  then show ?case by simp
next
  case (Suc n)
  let ?c' = "c\<lparr>stack_arg_current_idx := stack_arg_current_idx c + 1\<rparr>"
  from Suc.prems obtain bs1 where
    step: "sysv_marshal_arg i FFI_TYPE_INT c = (bs1, Some ?c')" and len: "length bs1 = 12"
    by (simp add: sysv_marshal_arg_def sysv_spill_arg_def is_xmm_type_def is_int128_type_def
          Let_def sysv_load_value_ptr_def)
  from Suc.prems have "6 \<le> gp_reg_idx ?c'" and "0 < stack_arg_current_idx ?c'" by simp_all
  from Suc.IH [OF this, of "Suc i"] obtain bs2 where
    rest: "sysv_marshal_args (Suc i) (replicate n FFI_TYPE_INT) ?c' = (bs2, True)"
    and len2: "length bs2 = 12 * n" by blast
  from step rest len len2 show ?case by simp
qed

lemma seven_ints:
  "replicate 7 FFI_TYPE_INT =
      [FFI_TYPE_INT, FFI_TYPE_INT, FFI_TYPE_INT, FFI_TYPE_INT, FFI_TYPE_INT, FFI_TYPE_INT,
       FFI_TYPE_INT]"
  by (simp add: numeral_eq_Suc)

lemma many_ints_unfold:
  "many_ints_params = replicate 7 FFI_TYPE_INT @ replicate 443 FFI_TYPE_INT"
  by (simp add: many_ints_params_def flip: replicate_add)

lemma many_ints_stack_args:
  "sysv_num_stack_args (signature_of name FFI_TYPE_INT many_ints_params f code) = 444"
proof -
  have "sysv_count_args many_ints_params (0, 0, 0)
          = sysv_count_args (replicate 443 FFI_TYPE_INT)
              (Suc (Suc (Suc (Suc (Suc (Suc 0))))), 0, Suc 0)"
    unfolding many_ints_unfold seven_ints by simp
  then show ?thesis
    by (simp add: sysv_num_stack_args_def signature_of_def sysv_count_ints_spilled)
qed

lemma many_ints_marshalling:
  "\<exists>bs. sysv_marshal_args 0 many_ints_params idx0 = (bs, True) \<and> length bs = 5369"
proof -
  let ?c = "\<lparr>gp_reg_idx = Suc (Suc (Suc (Suc (Suc (Suc 0))))), xmm_reg_idx = 0,
              stack_arg_current_idx = Suc 0\<rparr>"
  let ?i = "Suc (Suc (Suc (Suc (Suc (Suc (Suc 0))))))"
  obtain bs2 where
    tail: "sysv_marshal_args ?i (replicate 443 FFI_TYPE_INT) ?c = (bs2, True)"
    and len: "length bs2 = 12 * 443"
    using sysv_marshal_ints_spilled [of ?c ?i 443] by auto
  have "\<exists>bs1. sysv_marshal_args 0 many_ints_params idx0 = (bs1 @ bs2, True) \<and> length bs1 = 53"
    unfolding many_ints_unfold seven_ints
    by (simp add: sysv_marshal_arg_def sysv_spill_arg_def is_xmm_type_def is_int128_type_def
          Let_def sysv_load_value_ptr_def idx0_def sysv_gp_arg_regs_def
          sysv_gp_arg_regs_needs_rex_r_def tail)
  with len show ?thesis by auto
qed

lemma align16_loop_fixed: "n mod 16 = 0 \<Longrightarrow> align16_loop n = n"
  by (subst align16_loop.simps) simp

lemma many_ints_emitted:
  "\<exists>code. generate_generic_trampoline LINUX_X64 frame
            (signature_of name FFI_TYPE_INT many_ints_params f c) = (code, 5419)
          \<and> length code = 5419"
proof -
  let ?sig = "signature_of name FFI_TYPE_INT many_ints_params f c"
  obtain bs where m: "sysv_marshal_args 0 many_ints_params idx0 = (bs, True)"
    and len: "length bs = 5369"
    using many_ints_marshalling by blast
  have sub: "sysv_final_stack_subtraction ?sig = 3552"
    by (simp add: sysv_final_stack_subtraction_def many_ints_stack_args align16_loop_fixed)
  have p: "param_types ?sig = many_ints_params" and r: "return_type ?sig = FFI_TYPE_INT"
    by (simp_all add: signature_of_def)
  show ?thesis
    by (simp add: generate_x86_64_sysv_trampoline_def p r m len sub Let_def sysv_prologue_def
          sysv_reserve_stack_def sysv_call_target_def le_bytes64_def sysv_epilogue_def)
qed

lemma mapped_size_test_os: "mapped_size test_os 512 = 4096"
  by (simp add: mapped_size_def test_os_def)

text \<open>
  Where the claim of C8 holds: when the bytes the generator writes fit into the mapped
  region (no manual trampoline given, both allocations successful) and the size it
  returns is zero or more than the 512 bytes asked for, \<^verbatim>\<open>create_ffi_function\<close> returns
  \<^verbatim>\<open>NULL\<close>; the region is unmapped and the object freed; the only events are the mapping
  and the unmapping, so no instruction-cache flush happens.
\<close>

lemma generation_failure_rolls_back:
  assumes malloc_ok: "malloc_result os = p" "p \<noteq> 0"
    and alloc_ok: "exec_alloc_result os = Some code" "code \<noteq> 0"
    and no_manual: "manual = None \<or> manual = Some []"
    and fits: "length (written_bytes (generate_generic_trampoline h (frame_residue os)
                  (signature_of name rt ps f code))) \<le> mapped_size os 512"
    and bad_size:
      "code_size (generate_generic_trampoline h (frame_residue os)
          (signature_of name rt ps f code)) = 0
       \<or> 512 < code_size (generate_generic_trampoline h (frame_residue os)
                  (signature_of name rt ps f code))"
  shows "\<exists>w'. create_ffi_function h os name rt ps f manual w = Returns 0 w'
           \<and> exec_mem w' = (exec_mem w)(code := None)
           \<and> objs w' = (objs w)(p := None)
           \<and> mem w' = mem w
           \<and> trace w' = trace w @ [EXEC_ALLOC code (region_size h os 512),
                                    EXEC_FREE code (region_size h os 512)]"
proof -
  from no_manual have m:
    "(case manual of None \<Rightarrow> None | Some bs \<Rightarrow> if length bs > 0 then Some bs else None) = None"
    by auto
  show ?thesis
    using malloc_ok alloc_ok bad_size fits
    by (auto simp: create_ffi_function_def ffi_create_executable_memory_def Let_def m
        create_cleanup_def free_obj_def ffi_free_executable_memory_def signature_of_def
        write_code_def simp del: generate_generic_trampoline.simps)
qed

text \<open>
  C8 fails for a signature whose code is longer than the mapped region. For 450
  \<^verbatim>\<open>int\<close> parameters the System V generator writes and reports 5419 bytes; 4096 bytes
  are mapped for the 512 asked for. The generator has stored past the end of the
  region when \<^verbatim>\<open>create_ffi_function\<close> comes to compare the size: the call does not
  return \<^verbatim>\<open>NULL\<close>, it does not return.
\<close>

theorem C8_generator_overruns_region:
  "code_size (generate_generic_trampoline LINUX_X64 (frame_residue test_os)
      (signature_of ''f'' FFI_TYPE_INT many_ints_params target_addr code_addr)) = 5419
   \<and> mapped_size test_os 512 = 4096
   \<and> create_ffi_function LINUX_X64 test_os ''f'' FFI_TYPE_INT many_ints_params target_addr None
        (identity_world 0) = Faults"
proof -
  obtain code where
    g: "generate_generic_trampoline LINUX_X64 (frame_residue test_os)
          (signature_of ''f'' FFI_TYPE_INT many_ints_params target_addr code_addr) = (code, 5419)"
    and len: "length code = 5419"
    using many_ints_emitted by blast
  have os: "malloc_result test_os = obj_addr" "exec_alloc_result test_os = Some code_addr"
    by (simp_all add: test_os_def)
  have "create_ffi_function LINUX_X64 test_os ''f'' FFI_TYPE_INT many_ints_params target_addr None
          (identity_world 0) = Faults"
    using g len
    by (simp add: create_ffi_function_def os ffi_create_executable_memory_def Let_def
          mapped_size_test_os signature_of_def del: generate_generic_trampoline.simps)
  with g show ?thesis by (simp add: mapped_size_test_os del: generate_generic_trampoline.simps)
qed

section \<open>Void parameters\<close>

text \<open>
  \<^verbatim>\<open>create_ffi_function\<close> does not look at the parameter types; only a generator does.
  With a manual trampoline no generator is called.
\<close>

lemma manual_trampoline_accepts_void:
  "returned (create_ffi_function LINUX_X64 test_os ''f'' FFI_TYPE_VOID [FFI_TYPE_VOID]
     target_addr (Some [OPCODE_RET]) (identity_world 0)) = Some obj_addr"
  by (simp add: create_ffi_function_def test_os_def ffi_create_executable_memory_def Let_def
        create_publish_def returned_def mapped_size_def)

text \<open>
  C9, as stated, fails. "Constructing an FFI function whose parameter list contains
  Void fails" is false for a construction with a manual trampoline: the generator is
  not asked, and the construction returns the new object, not \<^verbatim>\<open>NULL\<close>.
\<close>

theorem C9_void_construction_counterexample:
  "FFI_TYPE_VOID \<in> set [FFI_TYPE_VOID]
   \<and> returned (create_ffi_function LINUX_X64 test_os ''f'' FFI_TYPE_VOID [FFI_TYPE_VOID]
                 target_addr (Some [OPCODE_RET]) (identity_world 0)) = Some obj_addr
   \<and> obj_addr \<noteq> 0"
  using manual_trampoline_accepts_void by simp

text \<open>
  C9, amended. On the x86-64 hosts (System V and Win64 generators), for every
  parameter list that contains Void and every construction without a manual
  trampoline whose executable mapping succeeds: the generator returns 0, and, when
  the bytes it has written before it reaches the Void parameter fit into the mapped
  region, \<^verbatim>\<open>create_ffi_function\<close> returns \<^verbatim>\<open>NULL\<close>.
\<close>

theorem C9_void_parameter_rejected_on_x64:
  assumes "is_x64 h" and "FFI_TYPE_VOID \<in> set ps" and "manual = None \<or> manual = Some []"
    and "exec_alloc_result os = Some code"
    and "length (written_bytes (generate_generic_trampoline h (frame_residue os)
            (signature_of name rt ps f code))) \<le> mapped_size os 512"
  shows "code_size (generate_generic_trampoline h (frame_residue os)
            (signature_of name rt ps f code)) = 0
         \<and> returned (create_ffi_function h os name rt ps f manual w) = Some 0"
proof -
  have gen: "code_size (generate_generic_trampoline h (frame_residue os)
               (signature_of name rt ps f code)) = 0"
    using assms(1,2) by (intro x64_generator_void) (simp_all add: signature_of_def)
  from assms(3) have m:
    "(case manual of None \<Rightarrow> None | Some bs \<Rightarrow> if length bs > 0 then Some bs else None) = None"
    by auto
  have "returned (create_ffi_function h os name rt ps f manual w) = Some 0"
    using gen assms(4,5)
    by (auto simp: create_ffi_function_def ffi_create_executable_memory_def Let_def m
          create_cleanup_def returned_def free_obj_def signature_of_def
          simp del: generate_generic_trampoline.simps)
  with gen show ?thesis by simp
qed

lemma int_void_written:
  "length (written_bytes (generate_generic_trampoline LINUX_X64 frame
      (signature_of ''f'' FFI_TYPE_INT [FFI_TYPE_INT, FFI_TYPE_VOID] target_addr code_addr))) = 31"
  by (simp add: signature_of_def generate_x86_64_sysv_trampoline_def sysv_marshal_arg_def
        sysv_spill_arg_def is_xmm_type_def is_int128_type_def Let_def idx0_def
        sysv_load_value_ptr_def sysv_gp_arg_regs_def sysv_gp_arg_regs_needs_rex_r_def
        sysv_prologue_def sysv_reserve_stack_def sysv_final_stack_subtraction_def
        sysv_num_stack_args_def)

theorem C9_void_parameter_witness:
  "is_x64 LINUX_X64
   \<and> FFI_TYPE_VOID \<in> set [FFI_TYPE_INT, FFI_TYPE_VOID]
   \<and> exec_alloc_result test_os = Some code_addr
   \<and> length (written_bytes (generate_generic_trampoline LINUX_X64 (frame_residue test_os)
        (signature_of ''f'' FFI_TYPE_INT [FFI_TYPE_INT, FFI_TYPE_VOID] target_addr code_addr)))
       \<le> mapped_size test_os 512
   \<and> code_size (generate_generic_trampoline LINUX_X64 (frame_residue test_os)
        (signature_of ''f'' FFI_TYPE_INT [FFI_TYPE_INT, FFI_TYPE_VOID] target_addr code_addr)) = 0
   \<and> returned (create_ffi_function LINUX_X64 test_os ''f'' FFI_TYPE_INT
                 [FFI_TYPE_INT, FFI_TYPE_VOID] target_addr None (identity_world 0)) = Some 0"
proof -
  have x: "is_x64 LINUX_X64" by (simp add: is_x64_def)
  have v: "FFI_TYPE_VOID \<in> set [FFI_TYPE_INT, FFI_TYPE_VOID]" by simp
  have nm: "(None :: byte list option) = None \<or> (None :: byte list option) = Some []" by simp
  have e: "exec_alloc_result test_os = Some code_addr" by (simp add: test_os_def)
  have fits: "length (written_bytes (generate_generic_trampoline LINUX_X64 (frame_residue test_os)
        (signature_of ''f'' FFI_TYPE_INT [FFI_TYPE_INT, FFI_TYPE_VOID] target_addr code_addr)))
       \<le> mapped_size test_os 512"
    by (simp only: int_void_written mapped_size_test_os)
  from C9_void_parameter_rejected_on_x64 [OF x v nm e fits, of "identity_world 0"] x v e fits
  show ?thesis by blast
qed

section \<open>The generated code at the call\<close>

lemma align16_loop_aligned: "align16_loop n mod 16 = 0"
proof (induction n rule: align16_loop.induct)
  case (1 n)
  then show ?case by (subst align16_loop.simps) auto
qed

lemma eight_mult_mod16: "(n * 8) mod 16 = (if even n then 0 else 8)" for n :: nat
proof (cases "even n")
  case True
  then obtain k where "n = 2 * k" by (elim evenE)
  then show ?thesis by simp
next
  case False
  then obtain k where "n = 2 * k + 1" by (elim oddE)
  then show ?thesis by simp
qed

lemma forty_mod16: "(40 + n * 8) mod 16 = (if even n then 8 else 0)" for n :: nat
proof (cases "even n")
  case True
  then obtain k where "n = 2 * k" by (elim evenE)
  then have "40 + n * 8 = 8 + 16 * (k + 2)" by simp
  then show ?thesis using True by (simp only: mod_mult_self2 if_True) simp
next
  case False
  then obtain k where "n = 2 * k + 1" by (elim oddE)
  then have "40 + n * 8 = 16 * (k + 3)" by simp
  then show ?thesis using False by simp
qed

lemma thirtytwo_mod16: "(32 + n * 8) mod 16 = (if even n then 0 else 8)" for n :: nat
proof (cases "even n")
  case True
  then obtain k where "n = 2 * k" by (elim evenE)
  then have "32 + n * 8 = 16 * (k + 2)" by simp
  then show ?thesis using True by simp
next
  case False
  then obtain k where "n = 2 * k + 1" by (elim oddE)
  then have "32 + n * 8 = 8 + 16 * (k + 2)" by simp
  then show ?thesis using False by (simp only: mod_mult_self2 if_False) simp
qed

text \<open>
  The reservations the three generators compute, for every signature: a multiple of
  16 under System V and AAPCS64; on Win64 at least 32 and always 8 modulo 16.
\<close>

lemma sysv_reservation_aligned: "sysv_final_stack_subtraction sig mod 16 = 0"
  by (simp add: sysv_final_stack_subtraction_def Let_def align16_loop_aligned)

lemma arm64_reservation_aligned: "arm64_final_stack_subtraction sig mod 16 = 0"
proof -
  have "(n * 8 + 8) mod 16 = 0" if "(n * 8) mod 16 \<noteq> 0" for n :: nat
  proof -
    from that have "odd n" by (simp add: eight_mult_mod16 split: if_splits)
    then obtain k where "n = 2 * k + 1" by (elim oddE)
    then show ?thesis by simp
  qed
  then show ?thesis by (simp add: arm64_final_stack_subtraction_def Let_def)
qed

lemma win64_reservation_shadow: "32 \<le> win64_total_stack_alloc sig"
  by (simp add: win64_total_stack_alloc_def Let_def)

lemma win64_reservation_mod16: "win64_total_stack_alloc sig mod 16 = 8"
  by (simp add: win64_total_stack_alloc_def Let_def forty_mod16 thirtytwo_mod16)

text \<open>
  The generators on the signature of \<^verbatim>\<open>test_get_fixed_int_minimal\<close>: the bytes emitted
  and the instructions they decode to.
\<close>

lemma x64_decode_all_pos:
  "0 < fuel \<Longrightarrow> x64_decode_all fuel (b # bs) =
     (case x64_decode (b # bs) of
        None \<Rightarrow> None
      | Some (i, rest) \<Rightarrow> map_option ((#) i) (x64_decode_all (fuel - 1) rest))"
  by (cases fuel) (auto split: option.splits)

lemma sysv_get_fixed_int_generated:
  "generate_generic_trampoline LINUX_X64 frame get_fixed_int_sig = (sysv_get_fixed_int_code, 42)"
  by (simp add: get_fixed_int_sig_def signature_of_def generate_x86_64_sysv_trampoline_def
        idx0_def sysv_prologue_def sysv_reserve_stack_def sysv_final_stack_subtraction_def
        sysv_num_stack_args_def sysv_call_target_def le_bytes64_def sysv_epilogue_def modrm_def
        sysv_get_fixed_int_code_def)

lemma sysv_get_fixed_int_disassembled:
  "x64_disassemble sysv_get_fixed_int_code = Some sysv_get_fixed_int_asm"
  by code_simp

lemma win64_get_fixed_int_alloc: "win64_total_stack_alloc get_fixed_int_sig = 40"
  by (simp add: win64_total_stack_alloc_def win64_num_stack_args_def win64_counts_def
        get_fixed_int_sig_def signature_of_def Let_def)

lemma win64_get_fixed_int_generated:
  "generate_generic_trampoline WIN64 frame get_fixed_int_sig = (win64_get_fixed_int_code frame, 44)"
proof -
  have "win64_reserve_stack get_fixed_int_sig = [0x48, 0x83, 0xEC, 0x28]"
    and "win64_epilogue get_fixed_int_sig =
           [0x48, 0x83, 0xC4, 0x28, 0x41, 0x5E, 0x41, 0x5D, 0x5D, 0xC3]"
    by (simp_all add: win64_reserve_stack_def win64_epilogue_def win64_get_fixed_int_alloc
          modrm_def)
  moreover have "win64_call_target frame get_fixed_int_sig =
      [0x48, 0xB8, 0x36, 0x11, 0x40, 0] @ le_bytes32 frame @ [0xFF, 0xD0]"
    by (simp add: win64_call_target_def get_fixed_int_sig_def signature_of_def le_bytes32_def
          modrm_def Let_def)
  ultimately show ?thesis
    by (simp add: get_fixed_int_sig_def signature_of_def generate_x86_64_win64_trampoline_def
        idx0_def win64_prologue_def win64_pass_return_pointer_def win64_store_return_def
        win64_return_struct_by_pointer_def modrm_def le_bytes32_def
        win64_get_fixed_int_code_def)
qed

lemma win64_get_fixed_int_disassembled:
  "x64_disassemble (win64_get_fixed_int_code frame) = Some (win64_get_fixed_int_asm frame)"
  by (simp add: x64_disassemble_def win64_get_fixed_int_code_def win64_get_fixed_int_asm_def
        le_bytes32_def x64_decode_all_pos x64_decode_def decode_modrm_op_def decode_modrm_def
        Let_def)

text \<open>Under System V, RSP is a multiple of 16 when the CALL executes.\<close>

lemma sysv_call_site_aligned:
  "rsp_at_call_mod16 LINUX_X64 frame get_fixed_int_sig (get_fixed_int_entry LINUX_X64) = Some 0"
  by (simp add: rsp_at_call_mod16_def x64_call_site_def sysv_get_fixed_int_generated
        sysv_get_fixed_int_disassembled sysv_get_fixed_int_asm_def get_fixed_int_entry_def
        x64_entry_def entry_cpu_def Let_def del: generate_generic_trampoline.simps)

text \<open>
  C4 fails on Win64. The dispatcher enters the trampoline with RSP + 8 a multiple
  of 16; the three pushes (24 bytes) and the reservation of 40 bytes that the Win64
  generator computes for a signature without parameters leave RSP at 8 modulo 16 when
  the CALL executes, whatever the bytes behind \<^verbatim>\<open>target_addr_val\<close> are.
\<close>

theorem C4_win64_call_site_misaligned:
  "unat (gpr (get_fixed_int_entry WIN64) RSP + 8) mod 16 = 0
   \<and> win64_total_stack_alloc get_fixed_int_sig = 40
   \<and> rsp_at_call_mod16 WIN64 frame get_fixed_int_sig (get_fixed_int_entry WIN64) = Some 8"
  by (simp add: rsp_at_call_mod16_def x64_call_site_def win64_get_fixed_int_generated
        win64_get_fixed_int_disassembled win64_get_fixed_int_asm_def get_fixed_int_entry_def
        x64_entry_def entry_cpu_def win64_get_fixed_int_alloc Let_def
        del: generate_generic_trampoline.simps)

text \<open>
  C5 fails. The System V trampoline sets AL to 0 before the marshalling and then
  loads the target address into RAX for the CALL: when the CALL executes, AL is the
  low byte of the target address, here 0x36 of 0x401136.
\<close>

theorem C5_sysv_al_is_target_low_byte:
  "func_ptr get_fixed_int_sig = 0x401136
   \<and> al_at_call LINUX_X64 frame get_fixed_int_sig (get_fixed_int_entry LINUX_X64) = Some 0x36"
proof
  show "func_ptr get_fixed_int_sig = 0x401136"
    by (simp add: get_fixed_int_sig_def signature_of_def)
  show "al_at_call LINUX_X64 frame get_fixed_int_sig (get_fixed_int_entry LINUX_X64) = Some 0x36"
    by (simp add: al_at_call_def x64_call_site_def sysv_get_fixed_int_generated
        sysv_get_fixed_int_disassembled sysv_get_fixed_int_asm_def get_fixed_int_entry_def
        x64_entry_def entry_cpu_def Let_def del: generate_generic_trampoline.simps)
qed

section \<open>The identity law\<close>

text \<open>Under System V the test returns \<^verbatim>\<open>INT_MAX\<close> as it was given.\<close>

lemma sysv_int_identity_max:
  "test_int_identity LINUX_X64 0x7FFFFFFF = Some (True, 0x7FFFFFFF)"
  by code_simp

text \<open>
  C1 fails on Win64 for \<^verbatim>\<open>int\<close>. The register branch of the Win64 generator loads an
  \<^verbatim>\<open>FFI_TYPE_INT\<close> argument with MOVZX from 16 bits, so \<^verbatim>\<open>test_int_identity_min_max\<close>
  with \<^verbatim>\<open>INT_MAX\<close> = 0x7FFFFFFF returns true and finds 0xFFFF in the return slot.
\<close>

theorem C1_win64_int_identity_truncates:
  "test_int_identity WIN64 0x7FFFFFFF = Some (True, 0xFFFF)"
  by code_simp

end
